theory Spec2Isabelle
  imports Complex_Main
begin

section \<open>Numbers\<close>

text \<open>
  The program computes with float64 values (Python floats and numpy scalars).  A float is
  modelled as a real number or one of the special values of IEEE-754: the two infinities
  and NaN.  Signed zeros are not modelled.

  The calculator evaluates closed formulas whose float64 results differ from the exact
  ones by rounding error only; its model computes over the exact reals.  The sky mapper
  and the image anchorer branch on their float results (a domain test in the arcsine, a
  comparison with 1, a conversion to an integer), so their model is float64 arithmetic:
  every basic operation rounds, and the functions of the C mathematical library are a
  parameter (section Float64 arithmetic).
\<close>

datatype npfloat = Fin real | PInf | NInf | NaN

fun np_neg :: "npfloat \<Rightarrow> npfloat" where
  "np_neg (Fin x) = Fin (- x)"
| "np_neg PInf = NInf"
| "np_neg NInf = PInf"
| "np_neg NaN = NaN"

fun np_abs :: "npfloat \<Rightarrow> npfloat" where
  "np_abs (Fin x) = Fin \<bar>x\<bar>"
| "np_abs PInf = PInf"
| "np_abs NInf = PInf"
| "np_abs NaN = NaN"

text \<open>Comparison \<open>a > b\<close>: false as soon as one side is NaN.\<close>

fun np_gt :: "npfloat \<Rightarrow> npfloat \<Rightarrow> bool" where
  "np_gt (Fin x) (Fin y) = (x > y)"
| "np_gt NaN b = False"
| "np_gt a NaN = False"
| "np_gt PInf b = (b \<noteq> PInf)"
| "np_gt a NInf = (a \<noteq> NInf)"
| "np_gt NInf b = False"
| "np_gt a PInf = False"

text \<open>The sign of a non-zero real picks the infinity that a product or quotient overflows to.\<close>

definition signed_inf :: "real \<Rightarrow> npfloat" where
  "signed_inf s = (if s = 0 then NaN else if s > 0 then PInf else NInf)"

text \<open>
  numpy division does not raise: a non-zero value over zero is an infinity, zero over zero
  and infinity over infinity are NaN.
\<close>

fun np_div :: "npfloat \<Rightarrow> npfloat \<Rightarrow> npfloat" where
  "np_div (Fin x) (Fin y) = (if y = 0 then signed_inf x else Fin (x / y))"
| "np_div NaN b = NaN"
| "np_div a NaN = NaN"
| "np_div (Fin x) PInf = Fin 0"
| "np_div (Fin x) NInf = Fin 0"
| "np_div PInf (Fin y) = (if y < 0 then NInf else PInf)"
| "np_div NInf (Fin y) = (if y < 0 then PInf else NInf)"
| "np_div PInf b = NaN"
| "np_div NInf b = NaN"

definition radians :: "real \<Rightarrow> real" where
  "radians x = x * (pi / 180)"

definition degrees :: "real \<Rightarrow> real" where
  "degrees x = x * (180 / pi)"

text \<open>
  The \<open>%\<close> operator on floats with a positive divisor: the remainder has the sign of the
  divisor.
\<close>

definition py_fmod :: "real \<Rightarrow> real \<Rightarrow> real" where
  "py_fmod x m = x - m * of_int \<lfloor>x / m\<rfloor>"

section \<open>Errors\<close>

text \<open>
  The exceptions the modelled code raises, by the name of their Python class.  The
  repository defines no exception class of its own.  \<open>ProviderError\<close> stands for any
  exception raised inside the external ephemeris library.
\<close>

datatype error = RuntimeError | ValueError | ZeroDivisionError | OverflowError | TypeError
  | ProviderError

fun error_name :: "error \<Rightarrow> string" where
  "error_name RuntimeError = ''RuntimeError''"
| "error_name ValueError = ''ValueError''"
| "error_name ZeroDivisionError = ''ZeroDivisionError''"
| "error_name OverflowError = ''OverflowError''"
| "error_name TypeError = ''TypeError''"
| "error_name ProviderError = ''ProviderError''"

text \<open>\<open>int(x)\<close> on a float: truncation towards zero; NaN and the infinities raise.\<close>

definition trunc :: "real \<Rightarrow> int" where
  "trunc x = (if x \<ge> 0 then \<lfloor>x\<rfloor> else \<lceil>x\<rceil>)"

fun py_int :: "npfloat \<Rightarrow> error + int" where
  "py_int (Fin x) = Inr (trunc x)"
| "py_int NaN = Inl ValueError"
| "py_int PInf = Inl OverflowError"
| "py_int NInf = Inl OverflowError"

section \<open>Dates\<close>

text \<open>
  The part of \<open>datetime\<close> the code reads: the calendar fields and
  \<open>timetuple().tm_yday\<close>, the day of the year counted from 1.
\<close>

record datetime =
  dt_year :: int
  dt_month :: nat
  dt_day :: nat
  dt_hour :: nat
  dt_minute :: nat

definition is_leap :: "int \<Rightarrow> bool" where
  "is_leap y = (y mod 4 = 0 \<and> (y mod 100 \<noteq> 0 \<or> y mod 400 = 0))"

definition days_in_month :: "int \<Rightarrow> nat \<Rightarrow> nat" where
  "days_in_month y m =
     (if m = 2 then (if is_leap y then 29 else 28)
      else if m = 4 \<or> m = 6 \<or> m = 9 \<or> m = 11 then 30 else 31)"

definition tm_yday :: "datetime \<Rightarrow> int" where
  "tm_yday dt = int (sum_list (map (days_in_month (dt_year dt)) [1..<dt_month dt]) + dt_day dt)"

section \<open>The calculator (calculator.py)\<close>

record calculator =
  mode :: string
  year :: int

definition OBLIQUITY :: real where
  "OBLIQUITY = 23.45"

text \<open>
  \<open>__init__\<close>.  \<open>astropy_available\<close> is the module flag set by the optional import,
  \<open>now_year\<close> the year of \<open>datetime.now()\<close>; \<open>year or now\<close> also replaces a year of 0.
\<close>

definition AnalemmaCalculator_init :: "bool \<Rightarrow> string \<Rightarrow> int option \<Rightarrow> int \<Rightarrow> error + calculator" where
  "AnalemmaCalculator_init astropy_available md yr now_year =
     (let self = \<lparr>mode = md,
                  year = (case yr of None \<Rightarrow> now_year
                          | Some y \<Rightarrow> if y = 0 then now_year else y)\<rparr>
      in if md = ''high-precision'' \<and> \<not> astropy_available then Inl RuntimeError
         else Inr self)"

definition calculate_declination_approximate :: "int \<Rightarrow> real" where
  "calculate_declination_approximate day_of_year =
     (let phase_shifted_day = 284 + day_of_year;
          angle_rad = radians ((360 / 365) * of_int phase_shifted_day);
          declination = OBLIQUITY * sin angle_rad
      in declination)"

definition calculate_equation_of_time_approximate :: "int \<Rightarrow> real" where
  "calculate_equation_of_time_approximate day_of_year =
     (let B = 2 * pi * of_int (day_of_year - 81) / 365;
          obliquity_component = 9.87 * sin (2 * B);
          eccentricity_component = 7.53 * cos B - 1.5 * sin B;
          eot = obliquity_component - eccentricity_component
      in eot)"

text \<open>
  What the ephemeris library returns for an instant: the Sun's declination in degrees
  and right ascension in hours.  The library is a parameter of the model,
  \<open>get_sun :: datetime \<Rightarrow> error + sun\<close>; it may raise.
\<close>

record sun =
  dec_degree :: real
  ra_hour :: real

definition calculate_high_precision ::
  "bool \<Rightarrow> (datetime \<Rightarrow> error + sun) \<Rightarrow> datetime \<Rightarrow> error + (real \<times> real)" where
  "calculate_high_precision astropy_available get_sun dt =
     (if \<not> astropy_available then Inl RuntimeError
      else case get_sun dt of
        Inl e \<Rightarrow> Inl e
      | Inr s \<Rightarrow>
          (let declination = dec_degree s;
               ra_hours = ra_hour s;
               mean_solar_hours = of_int (tm_yday dt - 1) * 24 / 365.25;
               eot_hours = py_fmod (ra_hours - mean_solar_hours) 24;
               eot_hours = (if eot_hours > 12 then eot_hours - 24 else eot_hours);
               eot_minutes = eot_hours * 4;
               day_of_year = tm_yday dt;
               eot_minutes = calculate_equation_of_time_approximate day_of_year
           in Inr (declination, eot_minutes)))"

text \<open>The dictionary \<open>calculate\<close> returns.\<close>

record calc_result =
  declination :: real
  eot :: real
  day_of_year :: int
  date :: datetime

definition calculate ::
  "bool \<Rightarrow> (datetime \<Rightarrow> error + sun) \<Rightarrow> calculator \<Rightarrow> datetime \<Rightarrow> error + calc_result" where
  "calculate astropy_available get_sun self dt =
     (let doy = tm_yday dt in
      if mode self = ''approximate'' then
        Inr \<lparr>declination = calculate_declination_approximate doy,
             eot = calculate_equation_of_time_approximate doy,
             day_of_year = doy, date = dt\<rparr>
      else if mode self = ''high-precision'' then
        (case calculate_high_precision astropy_available get_sun dt of
           Inl e \<Rightarrow> Inl e
         | Inr (d, e) \<Rightarrow> Inr \<lparr>declination = d, eot = e, day_of_year = doy, date = dt\<rparr>)
      else Inl ValueError)"

text \<open>
  \<open>compare_modes\<close> assigns to \<open>self.mode\<close>, so the model returns the calculator as
  the call leaves it, next to the result or the exception.
\<close>

record comparison =
  approximate :: calc_result
  high_precision :: calc_result
  declination_diff :: real
  eot_diff :: real

definition compare_modes ::
  "bool \<Rightarrow> (datetime \<Rightarrow> error + sun) \<Rightarrow> calculator \<Rightarrow> datetime
     \<Rightarrow> (error + comparison) \<times> calculator" where
  "compare_modes astropy_available get_sun self dt =
     (if \<not> astropy_available then (Inl RuntimeError, self)
      else
        let original_mode = mode self;
            self1 = self\<lparr>mode := ''approximate''\<rparr>
        in case calculate astropy_available get_sun self1 dt of
             Inl e \<Rightarrow> (Inl e, self1)
           | Inr approx_result \<Rightarrow>
               (let self2 = self1\<lparr>mode := ''high-precision''\<rparr>
                in case calculate astropy_available get_sun self2 dt of
                     Inl e \<Rightarrow> (Inl e, self2)
                   | Inr precise_result \<Rightarrow>
                       (let self3 = self2\<lparr>mode := original_mode\<rparr>
                        in (Inr \<lparr>approximate = approx_result,
                                 high_precision = precise_result,
                                 declination_diff =
                                   \<bar>declination precise_result - declination approx_result\<bar>,
                                 eot_diff = \<bar>eot precise_result - eot approx_result\<bar>\<rparr>,
                            self3))))"

section \<open>Float64 arithmetic\<close>

text \<open>\<open>round\<close> on a float: to the nearest integer, a tie to the even one.\<close>

definition py_round :: "real \<Rightarrow> int" where
  "py_round x =
     (let f = \<lfloor>x\<rfloor>; d = x - of_int f
      in if d < 1 / 2 then f else if d > 1 / 2 then f + 1 else if even f then f else f + 1)"

fun py_round_float :: "npfloat \<Rightarrow> error + int" where
  "py_round_float (Fin x) = Inr (py_round x)"
| "py_round_float NaN = Inl ValueError"
| "py_round_float PInf = Inl OverflowError"
| "py_round_float NInf = Inl OverflowError"

text \<open>
  Rounding of a real to float64, to nearest with ties to even.  A float64 has a
  significand of 53 bits and an exponent from -1022 to 1023: the spacing of the floats
  around \<open>x\<close> is \<open>2 ^ (e - 52)\<close> with \<open>e\<close> the exponent of \<open>x\<close>, at least -1022; a result
  of magnitude \<open>2 ^ 1024\<close> or more is an infinity.
\<close>

definition pow2 :: "int \<Rightarrow> real" where
  "pow2 e = (if 0 \<le> e then 2 ^ nat e else 1 / 2 ^ nat (- e))"

definition rnd_real :: "real \<Rightarrow> real" where
  "rnd_real x =
     (if x = 0 then 0
      else let e = max \<lfloor>log 2 \<bar>x\<bar>\<rfloor> (- 1022); u = pow2 (e - 52)
           in u * of_int (py_round (x / u)))"

definition rnd :: "real \<Rightarrow> npfloat" where
  "rnd x =
     (let r = rnd_real x
      in if \<bar>r\<bar> \<ge> pow2 1024 then (if x > 0 then PInf else NInf) else Fin r)"

text \<open>
  The four operations of float64: the exact result, rounded.  Division is numpy's, which
  does not raise.
\<close>

fun fl_add :: "npfloat \<Rightarrow> npfloat \<Rightarrow> npfloat" where
  "fl_add (Fin x) (Fin y) = rnd (x + y)"
| "fl_add NaN b = NaN"
| "fl_add a NaN = NaN"
| "fl_add PInf NInf = NaN"
| "fl_add NInf PInf = NaN"
| "fl_add PInf b = PInf"
| "fl_add NInf b = NInf"
| "fl_add a PInf = PInf"
| "fl_add a NInf = NInf"

definition fl_sub :: "npfloat \<Rightarrow> npfloat \<Rightarrow> npfloat" where
  "fl_sub a b = fl_add a (np_neg b)"

fun fl_mul :: "npfloat \<Rightarrow> npfloat \<Rightarrow> npfloat" where
  "fl_mul (Fin x) (Fin y) = rnd (x * y)"
| "fl_mul NaN b = NaN"
| "fl_mul a NaN = NaN"
| "fl_mul (Fin x) PInf = signed_inf x"
| "fl_mul (Fin x) NInf = signed_inf (- x)"
| "fl_mul PInf (Fin y) = signed_inf y"
| "fl_mul NInf (Fin y) = signed_inf (- y)"
| "fl_mul PInf PInf = PInf"
| "fl_mul PInf NInf = NInf"
| "fl_mul NInf PInf = NInf"
| "fl_mul NInf NInf = PInf"

fun fl_div :: "npfloat \<Rightarrow> npfloat \<Rightarrow> npfloat" where
  "fl_div (Fin x) (Fin y) = (if y = 0 then signed_inf x else rnd (x / y))"
| "fl_div NaN b = NaN"
| "fl_div a NaN = NaN"
| "fl_div (Fin x) PInf = Fin 0"
| "fl_div (Fin x) NInf = Fin 0"
| "fl_div PInf (Fin y) = (if y < 0 then NInf else PInf)"
| "fl_div NInf (Fin y) = (if y < 0 then PInf else NInf)"
| "fl_div PInf b = NaN"
| "fl_div NInf b = NaN"

text \<open>
  The float64 constants of the library: \<open>pi\<close> (3.141592653589793), \<open>pi / 180\<close>
  (0.017453292519943295) and \<open>180 / pi\<close> (57.29577951308232), and the value of the
  arctangent at (+infinity, -infinity), \<open>3 pi / 4\<close> (2.356194490192345).  \<open>np.radians\<close>
  and \<open>np.degrees\<close> are one multiplication each.
\<close>

definition M_PI :: real where
  "M_PI = 884279719003555 / 281474976710656"

definition DEG2RAD :: real where
  "DEG2RAD = 5030569068109113 / 288230376151711744"

definition RAD2DEG :: real where
  "RAD2DEG = 1007958012753983 / 17592186044416"

definition M_3PI_4 :: real where
  "M_3PI_4 = 2652839157010665 / 1125899906842624"

definition np_radians :: "npfloat \<Rightarrow> npfloat" where
  "np_radians a = fl_mul a (Fin DEG2RAD)"

definition np_degrees :: "npfloat \<Rightarrow> npfloat" where
  "np_degrees a = fl_mul a (Fin RAD2DEG)"

text \<open>
  The functions of the C mathematical library on finite floats.  Their float64 values are
  those of the platform's library, which IEEE-754 does not fix, so the library is a
  parameter of the model.  At an infinity or NaN, and outside the domain of the arcsine and
  the arccosine, numpy returns NaN without raising.
\<close>

record libm =
  fsin :: "real \<Rightarrow> real"
  fcos :: "real \<Rightarrow> real"
  ftan :: "real \<Rightarrow> real"
  farcsin :: "real \<Rightarrow> real"
  farccos :: "real \<Rightarrow> real"
  farctan :: "real \<Rightarrow> real"
  farctan2 :: "real \<Rightarrow> real \<Rightarrow> real"

fun np_sin :: "libm \<Rightarrow> npfloat \<Rightarrow> npfloat" where
  "np_sin L (Fin x) = Fin (fsin L x)"
| "np_sin L a = NaN"

fun np_cos :: "libm \<Rightarrow> npfloat \<Rightarrow> npfloat" where
  "np_cos L (Fin x) = Fin (fcos L x)"
| "np_cos L a = NaN"

fun np_tan :: "libm \<Rightarrow> npfloat \<Rightarrow> npfloat" where
  "np_tan L (Fin x) = Fin (ftan L x)"
| "np_tan L a = NaN"

fun np_arcsin :: "libm \<Rightarrow> npfloat \<Rightarrow> npfloat" where
  "np_arcsin L (Fin x) = (if \<bar>x\<bar> \<le> 1 then Fin (farcsin L x) else NaN)"
| "np_arcsin L a = NaN"

fun np_arccos :: "libm \<Rightarrow> npfloat \<Rightarrow> npfloat" where
  "np_arccos L (Fin x) = (if \<bar>x\<bar> \<le> 1 then Fin (farccos L x) else NaN)"
| "np_arccos L a = NaN"

fun np_arctan :: "libm \<Rightarrow> npfloat \<Rightarrow> npfloat" where
  "np_arctan L (Fin x) = Fin (farctan L x)"
| "np_arctan L PInf = Fin (M_PI / 2)"
| "np_arctan L NInf = Fin (- (M_PI / 2))"
| "np_arctan L NaN = NaN"

fun np_arctan2 :: "libm \<Rightarrow> npfloat \<Rightarrow> npfloat \<Rightarrow> npfloat" where
  "np_arctan2 L (Fin y) (Fin x) = Fin (farctan2 L y x)"
| "np_arctan2 L NaN b = NaN"
| "np_arctan2 L a NaN = NaN"
| "np_arctan2 L (Fin y) PInf = Fin 0"
| "np_arctan2 L (Fin y) NInf = Fin (if y \<ge> 0 then M_PI else - M_PI)"
| "np_arctan2 L PInf (Fin x) = Fin (M_PI / 2)"
| "np_arctan2 L NInf (Fin x) = Fin (- (M_PI / 2))"
| "np_arctan2 L PInf PInf = Fin (M_PI / 4)"
| "np_arctan2 L PInf NInf = Fin M_3PI_4"
| "np_arctan2 L NInf PInf = Fin (- (M_PI / 4))"
| "np_arctan2 L NInf NInf = Fin (- M_3PI_4)"

text \<open>
  The \<open>%\<close> operator of numpy floats: the remainder of C's \<open>fmod\<close>, which is exact
  and has the sign of the dividend, moved by one divisor when its sign differs from the
  divisor's.  Only that last addition rounds.  The divisor is a non-zero number.
\<close>

definition c_fmod :: "real \<Rightarrow> real \<Rightarrow> real" where
  "c_fmod x m = x - m * of_int (trunc (x / m))"

fun np_mod :: "npfloat \<Rightarrow> real \<Rightarrow> npfloat" where
  "np_mod (Fin x) m =
     (let r = c_fmod x m
      in if r \<noteq> 0 \<and> (m < 0) \<noteq> (r < 0) then rnd (r + m) else Fin r)"
| "np_mod a m = NaN"

section \<open>The sky mapper (sky_mapper.py)\<close>

record skymapper =
  latitude :: real
  longitude :: real
  timezone_offset :: real
  latitude_rad :: npfloat

text \<open>
  \<open>__init__\<close>.  Latitude and longitude are floats from the caller.  Without a time zone
  the offset is \<open>round(longitude / 15)\<close>, whose exception, if any, leaves the
  constructor.
\<close>

definition SkyMapper_init :: "real \<Rightarrow> real \<Rightarrow> real option \<Rightarrow> error + skymapper" where
  "SkyMapper_init lat lon tz =
     (case tz of
        None \<Rightarrow>
          (case py_round_float (fl_div (Fin lon) (Fin 15)) of
             Inl e \<Rightarrow> Inl e
           | Inr k \<Rightarrow> Inr \<lparr>latitude = lat, longitude = lon, timezone_offset = of_int k,
                           latitude_rad = np_radians (Fin lat)\<rparr>)
      | Some t \<Rightarrow> Inr \<lparr>latitude = lat, longitude = lon, timezone_offset = t,
                       latitude_rad = np_radians (Fin lat)\<rparr>)"

text \<open>
  The offset is a Python int when it was rounded and a float when the caller gave it; in
  both cases the float that enters the subtraction is the rounded product with 15.
\<close>

definition equation_of_time_to_hour_angle ::
  "skymapper \<Rightarrow> real \<Rightarrow> nat \<Rightarrow> nat \<Rightarrow> real option \<Rightarrow> npfloat" where
  "equation_of_time_to_hour_angle self eot_minutes hour minute lon =
     (let longitude' = (case lon of None \<Rightarrow> longitude self | Some l \<Rightarrow> l);
          time_from_noon = fl_add (rnd (of_int (int hour - 12)))
                                  (fl_div (rnd (real minute)) (Fin 60));
          hour_angle_from_time = fl_mul time_from_noon (Fin 15);
          eot_degrees = fl_div (Fin eot_minutes) (Fin 4);
          timezone_meridian = rnd (timezone_offset self * 15);
          longitude_correction = fl_sub (Fin longitude') timezone_meridian;
          hour_angle = fl_add (fl_add hour_angle_from_time eot_degrees) longitude_correction
      in hour_angle)"

text \<open>The argument of the arcsine in \<open>calculate_altitude\<close>, the source's \<open>sin_altitude\<close>.\<close>

definition sin_altitude :: "libm \<Rightarrow> skymapper \<Rightarrow> npfloat \<Rightarrow> npfloat \<Rightarrow> npfloat" where
  "sin_altitude L self decl hour_angle =
     (let dec_rad = np_radians decl;
          ha_rad = np_radians hour_angle
      in fl_add (fl_mul (np_sin L (latitude_rad self)) (np_sin L dec_rad))
                (fl_mul (fl_mul (np_cos L (latitude_rad self)) (np_cos L dec_rad))
                        (np_cos L ha_rad)))"

definition calculate_altitude :: "libm \<Rightarrow> skymapper \<Rightarrow> npfloat \<Rightarrow> npfloat \<Rightarrow> npfloat" where
  "calculate_altitude L self decl hour_angle =
     (let altitude = np_degrees (np_arcsin L (sin_altitude L self decl hour_angle))
      in altitude)"

text \<open>
  The altitude is an argument of \<open>calculate_azimuth\<close>, as in the source.  Both arguments
  of the arctangent are divided by its cosine; nothing tests that cosine first.
\<close>

definition calculate_azimuth ::
  "libm \<Rightarrow> skymapper \<Rightarrow> npfloat \<Rightarrow> npfloat \<Rightarrow> npfloat \<Rightarrow> npfloat" where
  "calculate_azimuth L self decl hour_angle altitude =
     (let dec_rad = np_radians decl;
          ha_rad = np_radians hour_angle;
          alt_rad = np_radians altitude;
          sin_azimuth = fl_div (fl_mul (np_cos L dec_rad) (np_sin L ha_rad)) (np_cos L alt_rad);
          cos_azimuth = fl_div (fl_sub (fl_mul (fl_mul (np_cos L dec_rad) (np_cos L ha_rad))
                                               (np_sin L (latitude_rad self)))
                                       (fl_mul (np_sin L dec_rad) (np_cos L (latitude_rad self))))
                               (np_cos L alt_rad);
          azimuth = np_degrees (np_arctan2 L sin_azimuth cos_azimuth);
          azimuth = np_mod (fl_add azimuth (Fin 180)) 360
      in azimuth)"

definition calculate_max_altitude :: "skymapper \<Rightarrow> npfloat \<Rightarrow> npfloat" where
  "calculate_max_altitude self decl =
     fl_sub (Fin 90) (np_abs (fl_sub (Fin (latitude self)) decl))"

record horizon = calc_result +
  altitude :: npfloat
  azimuth :: npfloat
  hour_angle :: npfloat

definition map_single_point :: "libm \<Rightarrow> skymapper \<Rightarrow> calc_result \<Rightarrow> horizon" where
  "map_single_point L self r =
     (let decl = Fin (declination r);
          e = eot r;
          d = date r;
          ha = equation_of_time_to_hour_angle self e (dt_hour d) (dt_minute d) None;
          alt = calculate_altitude L self decl ha;
          az = calculate_azimuth L self decl ha alt
      in calc_result.extend r
           (horizon.fields alt az ha))"

definition map_to_horizon :: "libm \<Rightarrow> skymapper \<Rightarrow> calc_result list \<Rightarrow> horizon list" where
  "map_to_horizon L self rs = map (map_single_point L self) rs"

text \<open>The source's \<open>cos_h\<close> in \<open>get_sunrise_sunset_approx\<close>.\<close>

definition cos_h :: "libm \<Rightarrow> skymapper \<Rightarrow> npfloat \<Rightarrow> npfloat" where
  "cos_h L self decl =
     (let dec_rad = np_radians decl
      in fl_mul (np_neg (np_tan L (latitude_rad self))) (np_tan L dec_rad))"

text \<open>
  \<open>get_sunrise_sunset_approx\<close> returns a pair of floats, or the pair \<open>(None, None)\<close>
  when the Sun does not cross the horizon.
\<close>

definition get_sunrise_sunset_approx ::
  "libm \<Rightarrow> skymapper \<Rightarrow> npfloat \<Rightarrow> npfloat option \<times> npfloat option" where
  "get_sunrise_sunset_approx L self decl =
     (let c = cos_h L self decl
      in if np_gt (np_abs c) (Fin 1) then (None, None)
         else (let h_rad = np_arccos L c;
                   h_deg = np_degrees h_rad
               in (Some (np_neg h_deg), Some h_deg)))"

section \<open>The image anchorer (image_anchor.py)\<close>

subsection \<open>Images\<close>

text \<open>
  \<open>np.array(self.image)\<close>: a grid of rows of pixels, each pixel one brightness
  (grayscale, a 2-D array) or a list of channel values (colour, a 3-D array).
  \<open>image.size\<close> is the pair (width, height).
\<close>

datatype img_array = Gray2D "nat list list" | RGB3D "nat list list list"

definition img_height :: "img_array \<Rightarrow> int" where
  "img_height img = (case img of Gray2D g \<Rightarrow> int (length g) | RGB3D a \<Rightarrow> int (length a))"

definition img_width :: "img_array \<Rightarrow> int" where
  "img_width img =
     (case img of
        Gray2D g \<Rightarrow> (case g of [] \<Rightarrow> 0 | r # _ \<Rightarrow> int (length r))
      | RGB3D a \<Rightarrow> (case a of [] \<Rightarrow> 0 | r # _ \<Rightarrow> int (length r)))"

definition list_max :: "nat list \<Rightarrow> nat" where
  "list_max xs = foldr max xs 0"

text \<open>
  The brightness channel: the array itself, or the maximum over the channels
  (\<open>np.max(img_array, axis=2)\<close>, which raises on a pixel without channels).
\<close>

definition to_gray :: "img_array \<Rightarrow> error + nat list list" where
  "to_gray img =
     (case img of
        Gray2D g \<Rightarrow> Inr g
      | RGB3D a \<Rightarrow> if list_ex (list_ex (\<lambda>px. px = [])) a then Inl ValueError
                   else Inr (map (map list_max) a))"

text \<open>The pixels in row-major order, each with its row \<open>y\<close> and column \<open>x\<close>.\<close>

definition indexed :: "'a list list \<Rightarrow> (nat \<times> nat \<times> 'a) list" where
  "indexed g =
     concat (map (\<lambda>(y, row). map (\<lambda>(x, v). (y, x, v)) (enumerate 0 row)) (enumerate 0 g))"

text \<open>\<open>argmax\<close>: the position of the first maximum.\<close>

definition first_index_of_max :: "nat list \<Rightarrow> nat" where
  "first_index_of_max xs = length (takeWhile (\<lambda>s. s \<noteq> list_max xs) xs)"

text \<open>
  \<open>np.unravel_index(gray.argmax(), gray.shape)\<close>: row and column of the first pixel,
  in row-major order, that has the maximal brightness.
\<close>

definition brightest_pixel :: "nat list list \<Rightarrow> error + (int \<times> int)" where
  "brightest_pixel gray =
     (case find (\<lambda>(y, x, v). v = list_max (concat gray)) (indexed gray) of
        None \<Rightarrow> Inl ValueError
      | Some (y, x, v) \<Rightarrow> Inr (int y, int x))"

text \<open>\<open>np.average(a, weights=w)\<close> raises when the weights sum to zero.\<close>

definition np_average :: "nat list \<Rightarrow> nat list \<Rightarrow> error + npfloat" where
  "np_average a w =
     (if sum_list w = 0 then Inl ZeroDivisionError
      else Inr (Fin (real (sum_list (map (\<lambda>(c, k). c * k) (zip a w))) / real (sum_list w))))"

text \<open>
  \<open>ndimage.center_of_mass(gray, labels=labeled, index=i)\<close>: the brightness-weighted mean
  row and column of the pixels labelled \<open>i\<close>; the division is numpy's.
\<close>

definition center_of_mass :: "nat list list \<Rightarrow> nat list list \<Rightarrow> nat \<Rightarrow> npfloat \<times> npfloat" where
  "center_of_mass gray labeled i =
     (let sel = map fst (filter (\<lambda>(p, l). l = i) (zip (indexed gray) (concat labeled)));
          normalizer = Fin (real (sum_list (map (\<lambda>(y, x, v). v) sel)))
      in (np_div (Fin (real (sum_list (map (\<lambda>(y, x, v). v * y) sel)))) normalizer,
          np_div (Fin (real (sum_list (map (\<lambda>(y, x, v). v * x) sel)))) normalizer))"

subsection \<open>Sun detection\<close>

text \<open>
  \<open>_detect_sun_position\<close>.  \<open>has_scipy\<close> tells whether the optional import succeeded;
  \<open>label\<close> is \<open>ndimage.label\<close>, the connected-component labelling of the library, a
  parameter of the model: it returns the label of every pixel and the number of components.
\<close>

definition detect_sun_position ::
  "bool \<Rightarrow> (bool list list \<Rightarrow> nat list list \<times> nat) \<Rightarrow> img_array \<Rightarrow> error + (int \<times> int)" where
  "detect_sun_position has_scipy label img =
     (case to_gray img of
        Inl e \<Rightarrow> Inl e
      | Inr gray \<Rightarrow>
          if concat gray = [] then Inl ValueError
          else
            let max_val = list_max (concat gray);
                threshold = real max_val * 0.999;
                bright_mask = map (map (\<lambda>v. real v \<ge> threshold)) gray
            in if has_scipy then
                 (let (labeled, num_features) = label bright_mask
                  in if num_features > 0 then
                       (let sizes = map (\<lambda>i. length (filter (\<lambda>(b, l). b \<and> l = i)
                                                  (zip (concat bright_mask) (concat labeled))))
                                        [0..<num_features + 1];
                            largest_blob = first_index_of_max (tl sizes) + 1;
                            (sun_y, sun_x) = center_of_mass gray labeled largest_blob
                        in case py_int sun_x of
                             Inl e \<Rightarrow> Inl e
                           | Inr x \<Rightarrow> (case py_int sun_y of
                                         Inl e \<Rightarrow> Inl e
                                       | Inr y \<Rightarrow> Inr (x, y)))
                     else (case brightest_pixel gray of
                             Inl e \<Rightarrow> Inl e
                           | Inr (sun_y, sun_x) \<Rightarrow> Inr (sun_x, sun_y)))
               else
                 (if length (filter id (concat bright_mask)) > 10 then
                    (let coords = filter (\<lambda>(y, x, b). b) (indexed bright_mask);
                         y_coords = map (\<lambda>(y, x, b). y) coords;
                         x_coords = map (\<lambda>(y, x, b). x) coords;
                         weights = map (\<lambda>(y, x, b). gray ! y ! x) coords
                     in case np_average x_coords weights of
                          Inl e \<Rightarrow> Inl e
                        | Inr ax \<Rightarrow>
                            (case py_int ax of
                               Inl e \<Rightarrow> Inl e
                             | Inr x \<Rightarrow>
                                 (case np_average y_coords weights of
                                    Inl e \<Rightarrow> Inl e
                                  | Inr ay \<Rightarrow>
                                      (case py_int ay of
                                         Inl e \<Rightarrow> Inl e
                                       | Inr y \<Rightarrow> Inr (x, y)))))
                  else (case brightest_pixel gray of
                          Inl e \<Rightarrow> Inl e
                        | Inr (sun_y, sun_x) \<Rightarrow> Inr (sun_x, sun_y))))"

subsection \<open>The anchorer\<close>

record anchorer =
  image :: img_array
  image_width :: int
  image_height :: int
  anchor_datetime :: datetime
  gps_latitude :: real
  gps_longitude :: real
  sun_pixel :: "int \<times> int"
  calc :: calculator
  sky_mapper :: skymapper
  anchor_data :: horizon
  pixels_per_degree_az :: "npfloat option"
  pixels_per_degree_alt :: "npfloat option"

text \<open>
  \<open>__init__\<close>, from the decoded image.  The calculator is built in approximate mode, so
  neither its construction nor \<open>calculate\<close> consults the ephemeris library; an exception
  of either would propagate.  Both scale fields start as \<open>None\<close>.
\<close>

definition ImageAnchorer_init ::
  "libm \<Rightarrow> bool \<Rightarrow> (datetime \<Rightarrow> error + sun) \<Rightarrow> int
     \<Rightarrow> bool \<Rightarrow> (bool list list \<Rightarrow> nat list list \<times> nat)
     \<Rightarrow> img_array \<Rightarrow> datetime \<Rightarrow> real \<Rightarrow> real \<Rightarrow> (int \<times> int) option \<Rightarrow> bool
     \<Rightarrow> error + anchorer" where
  "ImageAnchorer_init L astropy_available get_sun now_year has_scipy label
       img anchor_dt lat lon sun_px auto_detect_sun =
     (let w = img_width img; h = img_height img;
          detected = (case sun_px of
                        None \<Rightarrow> if auto_detect_sun then detect_sun_position has_scipy label img
                                else Inr (w div 2, h div 2)
                      | Some px \<Rightarrow> Inr px)
      in case detected of
           Inl e \<Rightarrow> Inl e
         | Inr px \<Rightarrow>
             (case AnalemmaCalculator_init astropy_available ''approximate''
                     (Some (dt_year anchor_dt)) now_year of
                Inl e \<Rightarrow> Inl e
              | Inr c \<Rightarrow>
                  (case SkyMapper_init lat lon None of
                     Inl e \<Rightarrow> Inl e
                   | Inr m \<Rightarrow>
                       (case calculate astropy_available get_sun c anchor_dt of
                          Inl e \<Rightarrow> Inl e
                        | Inr r \<Rightarrow>
                            Inr \<lparr>image = img, image_width = w, image_height = h,
                                 anchor_datetime = anchor_dt,
                                 gps_latitude = lat, gps_longitude = lon,
                                 sun_pixel = px, calc = c, sky_mapper = m,
                                 anchor_data = map_single_point L m r,
                                 pixels_per_degree_az = None,
                                 pixels_per_degree_alt = None\<rparr>))))"

text \<open>
  A field of view reaches \<open>calibrate_from_field_of_view\<close> either as a Python float from
  the caller or as a numpy scalar from \<open>calibrate_from_focal_length\<close>.  Dividing an int
  by a Python float zero raises; dividing it by a numpy zero gives an infinity or NaN.
  The int is converted to a float first, which raises when it is too large.
\<close>

datatype pynum = PyFloat npfloat | NpFloat npfloat

definition py_truediv :: "int \<Rightarrow> pynum \<Rightarrow> error + npfloat" where
  "py_truediv n d =
     (case rnd (of_int n) of
        Fin f \<Rightarrow>
          (case d of
             PyFloat x \<Rightarrow> if x = Fin 0 then Inl ZeroDivisionError else Inr (fl_div (Fin f) x)
           | NpFloat x \<Rightarrow> Inr (fl_div (Fin f) x))
      | _ \<Rightarrow> Inl OverflowError)"

text \<open>
  The two assignments of \<open>calibrate_from_field_of_view\<close> happen in order: when the second
  division raises, the first field is already set.
\<close>

definition calibrate_from_field_of_view ::
  "anchorer \<Rightarrow> pynum \<Rightarrow> pynum \<Rightarrow> (error + unit) \<times> anchorer" where
  "calibrate_from_field_of_view self horizontal_fov vertical_fov =
     (case py_truediv (image_width self) horizontal_fov of
        Inl e \<Rightarrow> (Inl e, self)
      | Inr az \<Rightarrow>
          (let self1 = self\<lparr>pixels_per_degree_az := Some az\<rparr>
           in case py_truediv (image_height self1) vertical_fov of
                Inl e \<Rightarrow> (Inl e, self1)
              | Inr alt \<Rightarrow> (Inr (), self1\<lparr>pixels_per_degree_alt := Some alt\<rparr>)))"

text \<open>
  The focal length and the sensor dimensions are Python floats, whose division raises on
  a zero divisor.  The fields of view are numpy scalars.
\<close>

definition calibrate_from_focal_length ::
  "libm \<Rightarrow> anchorer \<Rightarrow> real \<Rightarrow> real \<Rightarrow> real \<Rightarrow> (error + unit) \<times> anchorer" where
  "calibrate_from_focal_length L self focal_length_mm sensor_width_mm sensor_height_mm =
     (let twice = fl_mul (Fin 2) (Fin focal_length_mm)
      in if twice = Fin 0 then (Inl ZeroDivisionError, self)
         else
           let h_fov = fl_mul (Fin 2)
                         (np_degrees (np_arctan L (fl_div (Fin sensor_width_mm) twice)));
               v_fov = fl_mul (Fin 2)
                         (np_degrees (np_arctan L (fl_div (Fin sensor_height_mm) twice)))
           in calibrate_from_field_of_view self (NpFloat h_fov) (NpFloat v_fov))"

text \<open>
  \<open>int(n + d)\<close> for a Python int \<open>n\<close> and a numpy float \<open>d\<close>: the int is converted
  to a float, the sum is rounded, and the conversion back truncates.
\<close>

definition int_of_sum :: "int \<Rightarrow> npfloat \<Rightarrow> error + int" where
  "int_of_sum n d =
     (case rnd (of_int n) of
        Fin f \<Rightarrow> py_int (fl_add (Fin f) d)
      | _ \<Rightarrow> Inl OverflowError)"

text \<open>
  \<open>sky_to_pixel\<close>.  The guard reads the azimuth scale only; a missing altitude scale
  fails later, at the multiplication.
\<close>

definition sky_to_pixel :: "anchorer \<Rightarrow> npfloat \<Rightarrow> npfloat \<Rightarrow> error + (int \<times> int)" where
  "sky_to_pixel self alt az =
     (case pixels_per_degree_az self of
        None \<Rightarrow> Inl ValueError
      | Some ppd_az \<Rightarrow>
          (let anchor_alt = altitude (anchor_data self);
               anchor_az = azimuth (anchor_data self);
               delta_az = fl_sub az anchor_az;
               delta_alt = fl_sub alt anchor_alt;
               delta_x = fl_mul delta_az ppd_az
           in case pixels_per_degree_alt self of
                None \<Rightarrow> Inl TypeError
              | Some ppd_alt \<Rightarrow>
                  (let delta_y = fl_mul (np_neg delta_alt) ppd_alt
                   in case int_of_sum (fst (sun_pixel self)) delta_x of
                        Inl e \<Rightarrow> Inl e
                      | Inr x \<Rightarrow>
                          (case int_of_sum (snd (sun_pixel self)) delta_y of
                             Inl e \<Rightarrow> Inl e
                           | Inr y \<Rightarrow> Inr (x, y)))))"

text \<open>
  The two floats that \<open>sky_to_pixel\<close> converts to integers: \<open>sun_pixel[0] + delta_x\<close>
  and \<open>sun_pixel[1] + delta_y\<close>, for scales \<open>p\<close> and \<open>q\<close>.
\<close>

abbreviation pixel_x :: "anchorer \<Rightarrow> npfloat \<Rightarrow> npfloat \<Rightarrow> npfloat" where
  "pixel_x self az p \<equiv>
     fl_add (rnd (of_int (fst (sun_pixel self))))
            (fl_mul (fl_sub az (azimuth (anchor_data self))) p)"

abbreviation pixel_y :: "anchorer \<Rightarrow> npfloat \<Rightarrow> npfloat \<Rightarrow> npfloat" where
  "pixel_y self alt q \<equiv>
     fl_add (rnd (of_int (snd (sun_pixel self))))
            (fl_mul (np_neg (fl_sub alt (altitude (anchor_data self)))) q)"

section \<open>Example inputs\<close>

text \<open>
  The exact two-argument arctangent, with the quadrant taken from the signs of both
  arguments.
\<close>

definition atan2 :: "real \<Rightarrow> real \<Rightarrow> real" where
  "atan2 y x =
     (if x > 0 then arctan (y / x)
      else if x < 0 then (if y \<ge> 0 then arctan (y / x) + pi else arctan (y / x) - pi)
      else if y > 0 then pi / 2
      else if y < 0 then - (pi / 2)
      else 0)"

text \<open>
  The float64 values of the C library at the arguments that the examples of this theory
  reach, as the \<open>math\<close> module of CPython returns them:
  \<^item> sin 0.13962634015954636 = 0.13917310096006544 and
    cos 0.13962634015954636 = 0.9902680687415704 (8 degrees);
  \<^item> cos 1.5707963267948966 = 6.123233995736766e-17 and
    tan 1.5707963267948966 = 16331239353195370 (90 degrees);
  \<^item> tan 1.1693705988362009 = 2.355852365823753 (67 degrees) and
    tan 0.4014257279586958 = 0.42447481620960476 (23 degrees);
  \<^item> arcsin 1 = arccos 0 = 1.5707963267948966;
  \<^item> arctan 0.24 = 0.23554498072086333.
  At any other argument the record holds the exact function; the examples evaluate it
  at 0 only, where it is exact in float64 as well.
\<close>

definition libm_float64 :: libm where
  "libm_float64 =
     \<lparr>fsin = (\<lambda>x. if x = 5030569068109113 / 36028797018963968
                   then 5014239404989977 / 36028797018963968
                   else sin x),
      fcos = (\<lambda>x. if x = 5030569068109113 / 36028797018963968
                   then 4459770905381437 / 4503599627370496
                   else if x = 884279719003555 / 562949953421312
                   then 4967757600021511 / 81129638414606681695789005144064
                   else cos x),
      ftan = (\<lambda>x. if x = 884279719003555 / 562949953421312
                   then 16331239353195370
                   else if x = 658297124147091 / 562949953421312
                   then 2652453959215939 / 1125899906842624
                   else if x = 3615721517703425 / 9007199254740992
                   then 7646658496438943 / 18014398509481984
                   else tan x),
      farcsin = (\<lambda>x. if x = 1 then 884279719003555 / 562949953421312 else arcsin x),
      farccos = (\<lambda>x. if x = 0 then 884279719003555 / 562949953421312 else arccos x),
      farctan = (\<lambda>x. if x = 1080863910568919 / 4503599627370496
                      then 4243201149613883 / 18014398509481984
                      else arctan x),
      farctan2 = atan2\<rparr>"

text \<open>
  Observers at latitudes 0, 8, 67 and 90 on the meridian of Greenwich, as the constructor
  builds them.
\<close>

abbreviation observer_0 :: skymapper where
  "observer_0 \<equiv> \<lparr>latitude = 0, longitude = 0, timezone_offset = 0, latitude_rad = Fin 0\<rparr>"

abbreviation observer_8 :: skymapper where
  "observer_8 \<equiv>
     \<lparr>latitude = 8, longitude = 0, timezone_offset = 0,
      latitude_rad = Fin (5030569068109113 / 36028797018963968)\<rparr>"

abbreviation observer_67 :: skymapper where
  "observer_67 \<equiv>
     \<lparr>latitude = 67, longitude = 0, timezone_offset = 0,
      latitude_rad = Fin (658297124147091 / 562949953421312)\<rparr>"

abbreviation observer_90 :: skymapper where
  "observer_90 \<equiv>
     \<lparr>latitude = 90, longitude = 0, timezone_offset = 0,
      latitude_rad = Fin (884279719003555 / 562949953421312)\<rparr>"

text \<open>
  A photograph of two rows of two pixels with one bright pixel, taken on the equator at
  longitude 1.8825 on 22 March 2026 at 12:00, and the anchorer that the constructor builds
  from it without scipy.  Day 81 has declination 0 and equation of time -7.53 minutes,
  which the longitude cancels: the hour angle is 0 and the Sun is overhead, at
  altitude 90 and azimuth 180.
\<close>

abbreviation example_datetime :: datetime where
  "example_datetime \<equiv>
     \<lparr>dt_year = 2026, dt_month = 3, dt_day = 22, dt_hour = 12, dt_minute = 0\<rparr>"

abbreviation example_longitude :: real where
  "example_longitude \<equiv> 8478026298524959 / 4503599627370496"

abbreviation example_anchorer :: anchorer where
  "example_anchorer \<equiv>
     \<lparr>image = Gray2D [[0, 255], [0, 0]], image_width = 2, image_height = 2,
      anchor_datetime = example_datetime, gps_latitude = 0,
      gps_longitude = example_longitude,
      sun_pixel = (1, 0), calc = \<lparr>mode = ''approximate'', year = 2026\<rparr>,
      sky_mapper = \<lparr>latitude = 0, longitude = example_longitude, timezone_offset = 0,
                    latitude_rad = Fin 0\<rparr>,
      anchor_data = \<lparr>declination = 0, eot = - (753 / 100), day_of_year = 81,
                     date = example_datetime,
                     altitude = Fin 90, azimuth = Fin 180, hour_angle = Fin 0\<rparr>,
      pixels_per_degree_az = None, pixels_per_degree_alt = None\<rparr>"

text \<open>The same anchorer with both scales set to one pixel per degree.\<close>

abbreviation calibrated_anchorer :: anchorer where
  "calibrated_anchorer \<equiv>
     example_anchorer\<lparr>pixels_per_degree_az := Some (Fin 1),
                       pixels_per_degree_alt := Some (Fin 1)\<rparr>"

text \<open>
  The example anchorer after \<open>calibrate_from_focal_length(50, 0, 24)\<close>: a sensor of
  width 0 has a horizontal field of view of 0 degrees and the azimuth scale is the
  quotient 2 / 0.0 of numpy, an infinity.
\<close>

abbreviation focal_anchorer :: anchorer where
  "focal_anchorer \<equiv>
     example_anchorer\<lparr>pixels_per_degree_az := Some PInf,
                       pixels_per_degree_alt :=
                         Some (Fin (667410882190305 / 9007199254740992))\<rparr>"

text \<open>
  A calibrated anchorer whose anchor position is NaN, as \<open>calculate_altitude\<close> and
  \<open>calculate_azimuth\<close> leave it when the argument of the arcsine exceeds 1.
\<close>

abbreviation nan_anchorer :: anchorer where
  "nan_anchorer \<equiv>
     calibrated_anchorer\<lparr>anchor_data :=
       \<lparr>declination = 0, eot = - (753 / 100), day_of_year = 81, date = example_datetime,
        altitude = NaN, azimuth = NaN, hour_angle = Fin 0\<rparr>\<rparr>"

text \<open>
  The example anchorer built with the Sun's pixel given by the caller, at the column
  \<open>2 ^ 53 + 1\<close>, which is not a float64.
\<close>

abbreviation wide_anchorer :: anchorer where
  "wide_anchorer \<equiv> example_anchorer\<lparr>sun_pixel := (9007199254740993, 0)\<rparr>"

section \<open>Properties of the calculator\<close>

lemma tm_yday_march_22:
  "tm_yday \<lparr>dt_year = 2026, dt_month = 3, dt_day = 22, dt_hour = 12, dt_minute = 0\<rparr> = 81"
  by (simp add: tm_yday_def days_in_month_def is_leap_def upt_rec)

lemma equation_of_time_day_81: "calculate_equation_of_time_approximate 81 = - 7.53"
  by (simp add: calculate_equation_of_time_approximate_def)

text \<open>
  Claim C4, as the code has it.  With the ephemeris library unavailable, constructing the
  calculator in high-precision mode fails inside the constructor, so that no calculator
  exists on which a later call could fail; constructing it in approximate mode succeeds.
  The exception raised is Python's \<open>RuntimeError\<close>.
\<close>

theorem init_without_provider:
  "AnalemmaCalculator_init False ''high-precision'' yr now_year = Inl RuntimeError
   \<and> (\<exists>c. AnalemmaCalculator_init False ''approximate'' yr now_year = Inr c
            \<and> mode c = ''approximate'')"
  by (simp add: AnalemmaCalculator_init_def Let_def)

text \<open>
  Claim C4 as stated names the exception \<open>ConfigurationError\<close>.  The constructor, asked
  for high-precision mode for the year 2026 without the library, raises an exception of
  another class.
\<close>

theorem init_without_provider_counterexample:
  "\<not> (case AnalemmaCalculator_init False ''high-precision'' (Some 2026) 2026 of
         Inl e \<Rightarrow> error_name e = ''ConfigurationError''
       | Inr c \<Rightarrow> False)"
  by (simp add: AnalemmaCalculator_init_def Let_def)

text \<open>
  Claim C5.  When the ephemeris library answers, the equation of time returned by
  \<open>calculate_high_precision\<close> is the approximate formula at the day of the year of the
  given instant; hence \<open>calculate\<close> reports the same equation of time in both modes.
\<close>

theorem high_precision_eot_is_approximate:
  assumes "get_sun dt = Inr s"
  shows "calculate_high_precision True get_sun dt
           = Inr (dec_degree s, calculate_equation_of_time_approximate (tm_yday dt))
         \<and> map_sum id eot (calculate True get_sun (c\<lparr>mode := ''high-precision''\<rparr>) dt)
           = map_sum id eot (calculate True get_sun (c\<lparr>mode := ''approximate''\<rparr>) dt)"
  using assms by (simp add: calculate_high_precision_def calculate_def Let_def)

theorem high_precision_eot_is_approximate_witness:
  "(\<lambda>_. Inr \<lparr>dec_degree = 1 / 2, ra_hour = 0\<rparr>)
       \<lparr>dt_year = 2026, dt_month = 3, dt_day = 22, dt_hour = 12, dt_minute = 0\<rparr>
     = (Inr \<lparr>dec_degree = 1 / 2, ra_hour = 0\<rparr> :: error + sun)
   \<and> calculate_high_precision True (\<lambda>_. Inr \<lparr>dec_degree = 1 / 2, ra_hour = 0\<rparr>)
       \<lparr>dt_year = 2026, dt_month = 3, dt_day = 22, dt_hour = 12, dt_minute = 0\<rparr>
     = Inr (1 / 2, - 7.53)"
  using high_precision_eot_is_approximate
          [of "\<lambda>_. Inr \<lparr>dec_degree = 1 / 2, ra_hour = 0\<rparr>"
              "\<lparr>dt_year = 2026, dt_month = 3, dt_day = 22, dt_hour = 12, dt_minute = 0\<rparr>"
              "\<lparr>dec_degree = 1 / 2, ra_hour = 0\<rparr>"]
  by (simp add: tm_yday_march_22 equation_of_time_day_81)


text \<open>
  Claim C10.  Whenever \<open>compare_modes\<close> returns normally, the calculator it leaves behind
  has the mode it had before the call (indeed it is the same calculator).
\<close>

theorem compare_modes_preserves_mode:
  assumes "compare_modes astropy_available get_sun self dt = (Inr r, self')"
  shows "mode self' = mode self \<and> self' = self"
  using assms
  by (auto simp: compare_modes_def Let_def split: if_splits sum.splits)

theorem compare_modes_preserves_mode_witness:
  "\<not> isl (fst (compare_modes True (\<lambda>_. Inr \<lparr>dec_degree = 1 / 2, ra_hour = 0\<rparr>)
                  \<lparr>mode = ''high-precision'', year = 2026\<rparr>
                  \<lparr>dt_year = 2026, dt_month = 3, dt_day = 22, dt_hour = 12, dt_minute = 0\<rparr>))
   \<and> mode (snd (compare_modes True (\<lambda>_. Inr \<lparr>dec_degree = 1 / 2, ra_hour = 0\<rparr>)
                  \<lparr>mode = ''high-precision'', year = 2026\<rparr>
                  \<lparr>dt_year = 2026, dt_month = 3, dt_day = 22, dt_hour = 12, dt_minute = 0\<rparr>))
     = ''high-precision''"
proof -
  obtain r self' where h:
    "compare_modes True (\<lambda>_. Inr \<lparr>dec_degree = 1 / 2, ra_hour = 0\<rparr>)
        \<lparr>mode = ''high-precision'', year = 2026\<rparr>
        \<lparr>dt_year = 2026, dt_month = 3, dt_day = 22, dt_hour = 12, dt_minute = 0\<rparr>
      = (Inr r, self')"
    by (simp add: compare_modes_def calculate_def calculate_high_precision_def Let_def)
  from compare_modes_preserves_mode [OF h] h show ?thesis
    by simp
qed

text \<open>
  The restoring assignment is the last statement of \<open>compare_modes\<close>: when the ephemeris
  library raises, the exception leaves the calculator in high-precision mode.
\<close>

lemma compare_modes_provider_failure:
  "get_sun dt = Inl e \<Longrightarrow>
     compare_modes True get_sun self dt = (Inl e, self\<lparr>mode := ''high-precision''\<rparr>)"
  by (simp add: compare_modes_def calculate_def calculate_high_precision_def Let_def)

section \<open>Properties of the float64 arithmetic\<close>

lemma pow2_powr: "pow2 e = 2 powr (of_int e)"
  by (simp add: pow2_def powr_int)

lemma pow2_pos: "0 < pow2 e"
  by (simp add: pow2_def)

lemma pow2_add: "pow2 (a + b) = pow2 a * pow2 b"
  by (simp add: pow2_powr powr_add)

lemma pow2_mono: "a \<le> b \<Longrightarrow> pow2 a \<le> pow2 b"
  by (simp add: pow2_powr)

lemma floor_log2: "pow2 e \<le> x \<Longrightarrow> x < pow2 (e + 1) \<Longrightarrow> \<lfloor>log 2 x\<rfloor> = e"
proof -
  assume a: "pow2 e \<le> x" "x < pow2 (e + 1)"
  from a(1) pow2_pos [of e] have "0 < x"
    by linarith
  then show ?thesis
    using a by (simp add: floor_log_eq_powr_iff pow2_powr)
qed

lemma py_round_near: "\<bar>q - of_int n\<bar> < 1 / 2 \<Longrightarrow> py_round q = n"
proof -
  assume a: "\<bar>q - of_int n\<bar> < 1 / 2"
  show ?thesis
  proof (cases "of_int n \<le> q")
    case True
    with a have "\<lfloor>q\<rfloor> = n"
      by linarith
    with a True show ?thesis
      by (simp add: py_round_def Let_def)
  next
    case False
    with a have f: "\<lfloor>q\<rfloor> = n - 1"
      by linarith
    from a False have "q - of_int (n - 1) > 1 / 2"
      by simp
    with f show ?thesis
      by (simp add: py_round_def Let_def)
  qed
qed

text \<open>
  Rounding a number between \<open>2 ^ e\<close> and \<open>2 ^ (e + 1)\<close>, away from a tie: the multiple
  of \<open>2 ^ (e - 52)\<close> that is less than half a step away.
\<close>

lemma rnd_real_normal:
  assumes "pow2 e \<le> \<bar>x\<bar>" "\<bar>x\<bar> < pow2 (e + 1)" "- 1022 \<le> e"
    and "\<bar>x / pow2 (e - 52) - of_int n\<bar> < 1 / 2"
  shows "rnd_real x = of_int n * pow2 (e - 52)"
proof -
  from assms(1) pow2_pos [of e] have nz: "x \<noteq> 0"
    by auto
  have "\<lfloor>log 2 \<bar>x\<bar>\<rfloor> = e"
    using assms(1,2) by (rule floor_log2)
  then have "max \<lfloor>log 2 \<bar>x\<bar>\<rfloor> (- 1022) = e"
    using assms(3) by simp
  then show ?thesis
    using nz py_round_near [OF assms(4)] by (simp add: rnd_real_def Let_def)
qed

lemma rnd_normal:
  assumes "pow2 e \<le> \<bar>x\<bar>" "\<bar>x\<bar> < pow2 (e + 1)" "- 1022 \<le> e" "e < 1023"
    and "\<bar>x / pow2 (e - 52) - of_int n\<bar> < 1 / 2"
  shows "rnd x = Fin (of_int n * pow2 (e - 52))"
proof -
  have r: "rnd_real x = of_int n * pow2 (e - 52)"
    using assms(1,2,3,5) by (rule rnd_real_normal)
  have u: "0 < pow2 (e - 52)"
    by (rule pow2_pos)
  have "\<bar>x / pow2 (e - 52)\<bar> < pow2 53"
  proof -
    have "e - 52 + 53 = e + 1"
      by simp
    then have "pow2 (e + 1) = pow2 (e - 52) * pow2 53"
      using pow2_add [of "e - 52" 53] by (simp only:)
    with assms(2) have "\<bar>x\<bar> < pow2 (e - 52) * pow2 53"
      by (simp only:)
    then show ?thesis
      using u by (simp add: field_simps abs_mult)
  qed
  with assms(5) have "\<bar>of_int n :: real\<bar> < pow2 53 + 1 / 2"
    by linarith
  then have "\<bar>n\<bar> \<le> 2 ^ 53"
    by (simp add: pow2_def)
  then have "\<bar>of_int n :: real\<bar> \<le> pow2 53"
    by (simp add: pow2_def)
  then have "\<bar>of_int n * pow2 (e - 52)\<bar> \<le> pow2 53 * pow2 (e - 52)"
    using u by (simp add: abs_mult mult_right_mono)
  also have "\<dots> = pow2 (e + 1)"
  proof -
    have "53 + (e - 52) = e + 1"
      by simp
    then show ?thesis
      using pow2_add [of 53 "e - 52"] by (simp only:)
  qed
  also have "\<dots> \<le> pow2 1023"
    using assms(4) by (intro pow2_mono) simp
  also have "\<dots> < pow2 1024"
    by (simp add: pow2_def)
  finally show ?thesis
    by (simp add: rnd_def r Let_def)
qed

lemma rnd_zero: "rnd 0 = Fin 0"
  by (simp add: rnd_def rnd_real_def pow2_def)

lemma rnd_representable:
  assumes "pow2 e \<le> \<bar>x\<bar>" "\<bar>x\<bar> < pow2 (e + 1)" "- 1022 \<le> e" "e < 1023"
    and "x = of_int m * pow2 (e - 52)"
  shows "rnd x = Fin x"
proof -
  have "x / pow2 (e - 52) = of_int m"
    using pow2_pos [of "e - 52"] assms(5) by simp
  then have "\<bar>x / pow2 (e - 52) - of_int m\<bar> < 1 / 2"
    by simp
  from rnd_normal [OF assms(1-4) this] assms(5) show ?thesis
    by simp
qed

text \<open>Every integer of magnitude up to \<open>2 ^ 53\<close> is a float64.\<close>

lemma rnd_of_int:
  assumes "\<bar>n\<bar> \<le> 2 ^ 53"
  shows "rnd (of_int n) = Fin (of_int n)"
proof (cases "n = 0")
  case True
  then show ?thesis
    by (simp add: rnd_zero)
next
  case False
  define x :: real where "x = of_int n"
  define e where "e = \<lfloor>log 2 \<bar>x\<bar>\<rfloor>"
  from False have "1 \<le> \<bar>n\<bar>"
    by linarith
  then have "(1::real) \<le> of_int \<bar>n\<bar>"
    by (simp only: of_int_1_le_iff)
  then have x1: "1 \<le> \<bar>x\<bar>"
    by (simp add: x_def)
  then have x0: "0 < \<bar>x\<bar>"
    by linarith
  have b: "pow2 e \<le> \<bar>x\<bar>" "\<bar>x\<bar> < pow2 (e + 1)"
    using floor_log_eq_powr_iff [of "\<bar>x\<bar>" 2 e] x0 by (simp_all add: e_def pow2_powr)
  have e0: "0 \<le> e"
    using x1 by (simp add: e_def)
  from assms have "(of_int \<bar>n\<bar> :: real) \<le> of_int (2 ^ 53)"
    by (simp only: of_int_le_iff)
  then have x53: "\<bar>x\<bar> \<le> 2 ^ 53"
    by (simp add: x_def)
  have e53: "e \<le> 53"
  proof (rule ccontr)
    assume "\<not> e \<le> 53"
    then have "54 \<le> e"
      by simp
    then have "pow2 54 \<le> pow2 e"
      by (rule pow2_mono)
    with b(1) x53 show False
      by (simp add: pow2_def)
  qed
  show ?thesis
  proof (cases "e \<le> 52")
    case True
    have "x = of_int (n * 2 ^ nat (52 - e)) * pow2 (e - 52)"
      using True e0 by (simp add: pow2_def x_def)
    from rnd_representable [OF b _ _ this] e0 True show ?thesis
      by (simp add: x_def)
  next
    case False
    with e53 have e: "e = 53"
      by simp
    with b(1) x53 have "\<bar>x\<bar> = 2 ^ 53"
      by (simp add: pow2_def)
    then have "(of_int \<bar>n\<bar> :: real) = of_int (2 ^ 53)"
      by (simp add: x_def)
    then have "\<bar>n\<bar> = 2 ^ 53"
      by (simp only: of_int_eq_iff)
    then have "n = 9007199254740992 \<or> n = - 9007199254740992"
      by (auto simp: abs_if split: if_splits)
    then have "n = 2 * (n div 2)"
      by auto
    then have "(of_int n :: real) = of_int (2 * (n div 2))"
      by simp
    then have "x = of_int (n div 2) * pow2 (e - 52)"
      unfolding x_def e by (simp add: pow2_def)
    from rnd_representable [OF b _ _ this] e show ?thesis
      by (simp add: x_def)
  qed
qed

lemma rnd_one: "rnd 1 = Fin 1"
  using rnd_of_int [of 1] by simp

lemma rnd_numeral: "numeral k \<le> (2::int) ^ 53 \<Longrightarrow> rnd (numeral k) = Fin (numeral k)"
  using rnd_of_int [of "numeral k"] by simp

lemma rnd_neg_numeral:
  "numeral k \<le> (2::int) ^ 53 \<Longrightarrow> rnd (- numeral k) = Fin (- numeral k)"
  using rnd_of_int [of "- numeral k"] by simp

text \<open>A tie goes to the even significand: \<open>2 ^ 53 + 1\<close> rounds to \<open>2 ^ 53\<close>.\<close>

lemma rnd_tie: "rnd 9007199254740993 = Fin 9007199254740992"
proof -
  have l: "\<lfloor>log 2 (9007199254740993 :: real)\<rfloor> = 53"
    by (rule floor_log2) (simp_all add: pow2_def)
  have f: "\<lfloor>9007199254740993 / 2 :: real\<rfloor> = 4503599627370496"
    by (rule floor_unique) simp_all
  have "py_round (9007199254740993 / 2) = 4503599627370496"
    by (simp add: py_round_def Let_def f)
  then have "rnd_real 9007199254740993 = 9007199254740992"
    by (simp add: rnd_real_def Let_def l pow2_def)
  then show ?thesis
    by (simp add: rnd_def Let_def pow2_def)
qed

lemmas rnd_integers = rnd_zero rnd_one rnd_numeral rnd_neg_numeral

text \<open>The roundings that the examples reach.\<close>

lemma rnd_value_1:
  "rnd (891316828285473794106117409565 / 9903520314283042199192993792) = Fin 90"
  using rnd_normal [where e = "6" and n = "6333186975989760" and x = "891316828285473794106117409565 / 9903520314283042199192993792"]
  by (simp add: pow2_def)

lemma rnd_value_2:
  "rnd (226375608064910085 / 144115188075855872) = Fin (884279719003555 / 562949953421312)"
  using rnd_normal [where e = "0" and n = "7074237752028440" and x = "226375608064910085 / 144115188075855872"]
  by (simp add: pow2_def)

lemma rnd_value_3:
  "rnd (5030569068109113 / 36028797018963968) = Fin (5030569068109113 / 36028797018963968)"
  using rnd_normal [where e = "-3" and n = "5030569068109113" and x = "5030569068109113 / 36028797018963968"]
  by (simp add: pow2_def)

lemma rnd_value_4:
  "rnd (25142596810554238581887470460529 / 1298074214633706907132624082305024) = Fin (1395694493897217 / 72057594037927936)"
  using rnd_normal [where e = "-6" and n = "5582777975588868" and x = "25142596810554238581887470460529 / 1298074214633706907132624082305024"]
  by (simp add: pow2_def)

lemma rnd_value_5:
  "rnd (19889556528486762294526464184969 / 20282409603651670423947251286016) = Fin (8832737443003841 / 9007199254740992)"
  using rnd_normal [where e = "-1" and n = "8832737443003841" and x = "19889556528486762294526464184969 / 20282409603651670423947251286016"]
  by (simp add: pow2_def)

lemma rnd_value_6:
  "rnd (8832737443003841 / 9007199254740992) = Fin (8832737443003841 / 9007199254740992)"
  using rnd_normal [where e = "-1" and n = "8832737443003841" and x = "8832737443003841 / 9007199254740992"]
  by (simp add: pow2_def)

lemma rnd_value_7:
  "rnd (72057594037927945 / 72057594037927936) = Fin (4503599627370497 / 4503599627370496)"
  using rnd_normal [where e = "0" and n = "4503599627370497" and x = "72057594037927945 / 72057594037927936"]
  by (simp add: pow2_def)

lemma rnd_value_8:
  "rnd (337048127563310571 / 288230376151711744) = Fin (658297124147091 / 562949953421312)"
  using rnd_normal [where e = "0" and n = "5266376993176728" and x = "337048127563310571 / 288230376151711744"]
  by (simp add: pow2_def)

lemma rnd_value_9:
  "rnd (115703088566509599 / 288230376151711744) = Fin (3615721517703425 / 9007199254740992)"
  using rnd_normal [where e = "-2" and n = "7231443035406850" and x = "115703088566509599 / 288230376151711744"]
  by (simp add: pow2_def)

lemma rnd_value_10:
  "rnd (- (20282409603651673551187865912477 / 20282409603651670423947251286016)) = Fin (- (4503599627370497 / 4503599627370496))"
  using rnd_normal [where e = "0" and n = "-4503599627370497" and x = "- (20282409603651673551187865912477 / 20282409603651670423947251286016)"]
  by (simp add: pow2_def)

lemma rnd_value_11:
  "rnd (- (753 / 400)) = Fin (- (8478026298524959 / 4503599627370496))"
  using rnd_normal [where e = "0" and n = "-8478026298524959" and x = "- (753 / 400)"]
  by (simp add: pow2_def)

lemma rnd_value_12:
  "rnd (8478026298524959 / 67553994410557440) = Fin (2260807012939989 / 18014398509481984)"
  using rnd_normal [where e = "-3" and n = "4521614025879978" and x = "8478026298524959 / 67553994410557440"]
  by (simp add: pow2_def)

lemma rnd_value_13:
  "rnd (8478026298524959 / 4503599627370496) = Fin (8478026298524959 / 4503599627370496)"
  using rnd_normal [where e = "0" and n = "8478026298524959" and x = "8478026298524959 / 4503599627370496"]
  by (simp add: pow2_def)

lemma rnd_value_14:
  "rnd (- (8478026298524959 / 4503599627370496)) = Fin (- (8478026298524959 / 4503599627370496))"
  using rnd_normal [where e = "0" and n = "-8478026298524959" and x = "- (8478026298524959 / 4503599627370496)"]
  by (simp add: pow2_def)

lemma rnd_value_15:
  "rnd (6 / 25) = Fin (1080863910568919 / 4503599627370496)"
  using rnd_normal [where e = "-3" and n = "8646911284551352" and x = "6 / 25"]
  by (simp add: pow2_def)

lemma rnd_value_16:
  "rnd (4276968598480225608669920345989 / 316912650057057350374175801344) = Fin (1899355605452613 / 140737488355328)"
  using rnd_normal [where e = "3" and n = "7597422421810452" and x = "4276968598480225608669920345989 / 316912650057057350374175801344"]
  by (simp add: pow2_def)

lemma rnd_value_17:
  "rnd (1899355605452613 / 70368744177664) = Fin (1899355605452613 / 70368744177664)"
  using rnd_normal [where e = "4" and n = "7597422421810452" and x = "1899355605452613 / 70368744177664"]
  by (simp add: pow2_def)

lemma rnd_value_18:
  "rnd (140737488355328 / 1899355605452613) = Fin (667410882190305 / 9007199254740992)"
  using rnd_normal [where e = "-4" and n = "5339287057522440" and x = "140737488355328 / 1899355605452613"]
  by (simp add: pow2_def)

lemmas rnd_values =
  rnd_value_1 rnd_value_2 rnd_value_3 rnd_value_4 rnd_value_5
  rnd_value_6 rnd_value_7 rnd_value_8 rnd_value_9 rnd_value_10
  rnd_value_11 rnd_value_12 rnd_value_13 rnd_value_14 rnd_value_15
  rnd_value_16 rnd_value_17 rnd_value_18

text \<open>
  Rounding does not leave an interval bounded by a power of two, so a product that stays
  below \<open>2 ^ 1024\<close> in magnitude is a number.
\<close>

lemma py_round_bounds: "\<lfloor>x\<rfloor> \<le> py_round x \<and> py_round x \<le> \<lceil>x\<rceil>"
proof -
  have "x - of_int \<lfloor>x\<rfloor> \<ge> 1 / 2 \<Longrightarrow> \<lfloor>x\<rfloor> + 1 \<le> \<lceil>x\<rceil>"
    by linarith
  moreover have "\<lfloor>x\<rfloor> \<le> \<lceil>x\<rceil>"
    by linarith
  ultimately show ?thesis
    by (auto simp: py_round_def Let_def)
qed

lemma rnd_real_bound:
  assumes "\<bar>x\<bar> \<le> pow2 k" "- 1022 \<le> k"
  shows "\<bar>rnd_real x\<bar> \<le> pow2 k"
proof (cases "x = 0")
  case True
  then show ?thesis
    using pow2_pos [of k] by (simp add: rnd_real_def)
next
  case False
  define e where "e = max \<lfloor>log 2 \<bar>x\<bar>\<rfloor> (- 1022)"
  define u where "u = pow2 (e - 52)"
  define N :: int where "N = 2 ^ nat (k - e + 52)"
  have u: "0 < u"
    by (simp add: u_def pow2_pos)
  from False assms(1) have "log 2 \<bar>x\<bar> \<le> of_int k"
    by (simp add: pow2_powr le_log_iff log_le_iff)
  then have "\<lfloor>log 2 \<bar>x\<bar>\<rfloor> \<le> k"
    by (simp add: floor_le_iff)
  with assms(2) have ek: "e \<le> k"
    by (simp add: e_def)
  then have "pow2 (k - e + 52) = of_int N"
    by (simp add: pow2_def N_def)
  moreover have "e - 52 + (k - e + 52) = k"
    by simp
  then have "pow2 k = u * pow2 (k - e + 52)"
    using pow2_add [of "e - 52" "k - e + 52"] by (simp only: u_def)
  ultimately have k: "pow2 k = u * of_int N"
    by simp
  with assms(1) u have "\<bar>x / u\<bar> \<le> of_int N"
    by (simp add: field_simps abs_mult)
  then have "- of_int N \<le> x / u" "x / u \<le> of_int N"
    by linarith+
  then have "- N \<le> \<lfloor>x / u\<rfloor>" "\<lceil>x / u\<rceil> \<le> N"
    by (simp_all add: le_floor_iff ceiling_le_iff)
  with py_round_bounds [of "x / u"] have "\<bar>py_round (x / u)\<bar> \<le> N"
    by linarith
  then have "\<bar>of_int (py_round (x / u)) :: real\<bar> \<le> of_int N"
    by linarith
  then have "u * \<bar>of_int (py_round (x / u))\<bar> \<le> u * of_int N"
    using u by (simp add: mult_left_mono)
  moreover have "rnd_real x = u * of_int (py_round (x / u))"
    using False by (simp add: rnd_real_def Let_def e_def u_def)
  ultimately show ?thesis
    using u by (simp add: k abs_mult)
qed

lemma rnd_finite:
  assumes "\<bar>x\<bar> \<le> pow2 k" "- 1022 \<le> k" "k < 1024"
  shows "\<exists>r. rnd x = Fin r \<and> \<bar>r\<bar> \<le> pow2 k"
proof -
  have "\<bar>rnd_real x\<bar> \<le> pow2 k"
    using assms(1,2) by (rule rnd_real_bound)
  moreover have "pow2 k \<le> pow2 1023"
    using assms(3) by (intro pow2_mono) simp
  moreover have "pow2 1023 < pow2 1024"
    by (simp add: pow2_def)
  ultimately show ?thesis
    by (simp add: rnd_def Let_def)
qed

lemma np_radians_finite:
  assumes "\<bar>x\<bar> < pow2 1024"
  shows "\<exists>r. np_radians (Fin x) = Fin r"
proof -
  have p: "pow2 1024 = pow2 1019 * 32"
    by (simp add: pow2_def)
  have "\<bar>x * DEG2RAD\<bar> = \<bar>x\<bar> * DEG2RAD"
    by (simp add: abs_mult DEG2RAD_def)
  also have "\<dots> \<le> pow2 1024 * DEG2RAD"
    using assms by (intro mult_right_mono) (simp_all add: DEG2RAD_def)
  also have "\<dots> = pow2 1019 * (32 * DEG2RAD)"
    by (simp only: p mult.assoc)
  also have "\<dots> \<le> pow2 1019 * 1"
    using pow2_pos [of 1019] by (intro mult_left_mono) (simp_all add: DEG2RAD_def)
  finally have "\<bar>x * DEG2RAD\<bar> \<le> pow2 1019"
    by simp
  from rnd_finite [OF this] show ?thesis
    by (auto simp: np_radians_def)
qed

text \<open>
  Rounding to an integer, around an even one: the halfway points on both sides of an
  even integer go to it.  Hence rounding to float64 takes to 1 everything up to half a
  step above it, the tie included, and nothing beyond.
\<close>

lemma py_round_gt_even:
  assumes "even N"
  shows "(N < py_round z) = (of_int N + 1 / 2 < z)"
proof (cases "\<lfloor>z\<rfloor> = N")
  case True
  then have "z - of_int \<lfloor>z\<rfloor> = z - of_int N"
    by simp
  with True assms show ?thesis
    by (auto simp: py_round_def Let_def)
next
  case False
  show ?thesis
  proof (cases "\<lfloor>z\<rfloor> < N")
    case True
    then have "\<lceil>z\<rceil> \<le> N" "z < of_int N"
      by linarith+
    with py_round_bounds [of z] show ?thesis
      by linarith
  next
    case F: False
    with False have "N + 1 \<le> \<lfloor>z\<rfloor>"
      by linarith
    then have "N + 1 \<le> py_round z" "of_int N + 1 \<le> z"
      using py_round_bounds [of z] by linarith+
    then show ?thesis
      by linarith
  qed
qed

lemma py_round_lt_even:
  assumes "even N"
  shows "(py_round z < N) = (z < of_int N - 1 / 2)"
proof (cases "\<lfloor>z\<rfloor> = N - 1")
  case True
  then have d: "z - of_int \<lfloor>z\<rfloor> = z - of_int N + 1"
    by simp
  from True assms have "odd \<lfloor>z\<rfloor>"
    by simp
  with True d show ?thesis
    by (auto simp: py_round_def Let_def)
next
  case False
  show ?thesis
  proof (cases "\<lfloor>z\<rfloor> < N - 1")
    case True
    then have "\<lceil>z\<rceil> \<le> N - 1" "z < of_int N - 1"
      by linarith+
    with py_round_bounds [of z] show ?thesis
      by linarith
  next
    case F: False
    with False have "N \<le> \<lfloor>z\<rfloor>"
      by linarith
    then have "N \<le> py_round z" "of_int N \<le> z"
      using py_round_bounds [of z] by linarith+
    then show ?thesis
      by linarith
  qed
qed

lemma rnd_real_lower:
  assumes "pow2 k \<le> \<bar>x\<bar>" "- 1022 \<le> k"
  shows "pow2 k \<le> \<bar>rnd_real x\<bar>"
proof -
  define l where "l = \<lfloor>log 2 \<bar>x\<bar>\<rfloor>"
  define u where "u = pow2 (l - 52)"
  from assms(1) pow2_pos [of k] have x0: "0 < \<bar>x\<bar>"
    by linarith
  then have nz: "x \<noteq> 0"
    by simp
  have u: "0 < u"
    by (simp add: u_def pow2_pos)
  from x0 assms(1) have "of_int k \<le> log 2 \<bar>x\<bar>"
    by (simp add: pow2_powr le_log_iff)
  then have kl: "k \<le> l"
    by (simp add: l_def le_floor_iff)
  have b: "pow2 l \<le> \<bar>x\<bar>"
    using floor_log_eq_powr_iff [of "\<bar>x\<bar>" 2 l] x0 by (simp add: l_def pow2_powr)
  have "l - 52 + 52 = l"
    by simp
  then have "pow2 l = u * pow2 52"
    using pow2_add [of "l - 52" 52] by (simp only: u_def)
  then have p: "pow2 l = u * of_int (2 ^ 52)"
    by (simp add: pow2_def)
  with b u have "of_int (2 ^ 52) \<le> \<bar>x / u\<bar>"
    by (simp add: field_simps abs_mult)
  then have "of_int (2 ^ 52) \<le> x / u \<or> x / u \<le> - of_int (2 ^ 52)"
    by linarith
  then have "2 ^ 52 \<le> \<lfloor>x / u\<rfloor> \<or> \<lceil>x / u\<rceil> \<le> - (2 ^ 52)"
    by (simp only: le_floor_iff ceiling_le_iff of_int_minus)
  with py_round_bounds [of "x / u"] have "2 ^ 52 \<le> \<bar>py_round (x / u)\<bar>"
    by linarith
  then have "(of_int (2 ^ 52) :: real) \<le> of_int \<bar>py_round (x / u)\<bar>"
    by (simp only: of_int_le_iff)
  then have m: "u * of_int (2 ^ 52) \<le> u * \<bar>of_int (py_round (x / u))\<bar>"
    using u by (simp add: mult_left_mono)
  from kl assms(2) have "max l (- 1022) = l"
    by simp
  then have r: "rnd_real x = u * of_int (py_round (x / u))"
    using nz by (simp add: rnd_real_def Let_def l_def u_def)
  have "pow2 k \<le> pow2 l"
    using kl by (rule pow2_mono)
  also have "\<dots> = u * of_int (2 ^ 52)"
    by (rule p)
  also have "\<dots> \<le> u * \<bar>of_int (py_round (x / u))\<bar>"
    by (rule m)
  also have "\<dots> = \<bar>rnd_real x\<bar>"
    using u by (simp add: r abs_mult)
  finally show ?thesis .
qed

lemma rnd_real_exceeds_one: "(1 < \<bar>rnd_real x\<bar>) = (1 + 1 / 2 ^ 53 < \<bar>x\<bar>)"
proof -
  consider "\<bar>x\<bar> \<le> 1" | "1 < \<bar>x\<bar>" "\<bar>x\<bar> < 2" | "2 \<le> \<bar>x\<bar>"
    by linarith
  then show ?thesis
  proof cases
    case 1
    then have "\<bar>rnd_real x\<bar> \<le> pow2 0"
      by (intro rnd_real_bound) (simp_all add: pow2_def)
    with 1 show ?thesis
      by (simp add: pow2_def)
  next
    case 2
    then have "\<lfloor>log 2 \<bar>x\<bar>\<rfloor> = 0"
      by (intro floor_log2) (simp_all add: pow2_def)
    moreover from 2 have "x \<noteq> 0"
      by auto
    ultimately have r: "rnd_real x = of_int (py_round (x * 2 ^ 52)) / 2 ^ 52"
      by (simp add: rnd_real_def Let_def pow2_def)
    have e: "even (2 ^ 52 :: int)" "even (- (2 ^ 52) :: int)"
      by simp_all
    show ?thesis
    proof (cases "0 < x")
      case True
      then have "0 \<le> \<lfloor>x * 2 ^ 52\<rfloor>"
        by simp
      with py_round_bounds [of "x * 2 ^ 52"] have "0 \<le> py_round (x * 2 ^ 52)"
        by linarith
      then have "(1 < \<bar>rnd_real x\<bar>) = (2 ^ 52 < py_round (x * 2 ^ 52))"
        by (simp add: r field_simps)
      also have "\<dots> = (of_int (2 ^ 52) + 1 / 2 < x * 2 ^ 52)"
        using e(1) by (rule py_round_gt_even)
      also have "\<dots> = (1 + 1 / 2 ^ 53 < \<bar>x\<bar>)"
        using True by (simp add: field_simps)
      finally show ?thesis .
    next
      case False
      with 2 have neg: "x < 0"
        by linarith
      then have "x * 2 ^ 52 \<le> 0"
        by (simp add: mult_le_0_iff)
      then have "\<lceil>x * 2 ^ 52\<rceil> \<le> 0"
        by (simp add: ceiling_le_iff)
      with py_round_bounds [of "x * 2 ^ 52"] have "py_round (x * 2 ^ 52) \<le> 0"
        by linarith
      moreover have "(of_int (py_round (x * 2 ^ 52)) < (of_int (- (2 ^ 52)) :: real))
                       = (py_round (x * 2 ^ 52) < - (2 ^ 52))"
        by (rule of_int_less_iff)
      ultimately have "(1 < \<bar>rnd_real x\<bar>) = (py_round (x * 2 ^ 52) < - (2 ^ 52))"
        by (simp add: r field_simps)
      also have "\<dots> = (x * 2 ^ 52 < of_int (- (2 ^ 52)) - 1 / 2)"
        using e(2) by (rule py_round_lt_even)
      also have "\<dots> = (1 + 1 / 2 ^ 53 < \<bar>x\<bar>)"
        using neg by (auto simp: field_simps)
      finally show ?thesis .
    qed
  next
    case 3
    then have "pow2 1 \<le> \<bar>rnd_real x\<bar>"
      by (intro rnd_real_lower) (simp_all add: pow2_def)
    with 3 show ?thesis
      by (simp add: pow2_def)
  qed
qed

lemma rnd_exceeds_one: "np_gt (np_abs (rnd x)) (Fin 1) = (1 + 1 / 2 ^ 53 < \<bar>x\<bar>)"
proof -
  have "(1::real) < pow2 1024"
    by (simp add: pow2_def)
  then have "np_gt (np_abs (rnd x)) (Fin 1) = (1 < \<bar>rnd_real x\<bar>)"
    by (auto simp: rnd_def Let_def)
  then show ?thesis
    by (simp only: rnd_real_exceeds_one)
qed

text \<open>The values of the example library that the examples reach.\<close>

lemma libm_value_1: "fsin libm_float64 0 = 0"
  by (simp add: libm_float64_def)

lemma libm_value_2: "fsin libm_float64 (5030569068109113 / 36028797018963968) = (5014239404989977 / 36028797018963968)"
  by (simp add: libm_float64_def)

lemma libm_value_3: "fcos libm_float64 0 = 1"
  by (simp add: libm_float64_def)

lemma libm_value_4: "fcos libm_float64 (884279719003555 / 562949953421312) = (4967757600021511 / 81129638414606681695789005144064)"
  by (simp add: libm_float64_def)

lemma libm_value_5: "fcos libm_float64 (5030569068109113 / 36028797018963968) = (4459770905381437 / 4503599627370496)"
  by (simp add: libm_float64_def)

lemma libm_value_6: "ftan libm_float64 (658297124147091 / 562949953421312) = (2652453959215939 / 1125899906842624)"
  by (simp add: libm_float64_def)

lemma libm_value_7: "ftan libm_float64 (3615721517703425 / 9007199254740992) = (7646658496438943 / 18014398509481984)"
  by (simp add: libm_float64_def)

lemma libm_value_8: "ftan libm_float64 (884279719003555 / 562949953421312) = 16331239353195370"
  by (simp add: libm_float64_def)

lemma libm_value_9: "ftan libm_float64 0 = 0"
  by (simp add: libm_float64_def)

lemma libm_value_10: "farcsin libm_float64 1 = (884279719003555 / 562949953421312)"
  by (simp add: libm_float64_def)

lemma libm_value_11: "farccos libm_float64 0 = (884279719003555 / 562949953421312)"
  by (simp add: libm_float64_def)

lemma libm_value_12: "farctan2 libm_float64 0 0 = 0"
  by (simp add: libm_float64_def atan2_def)

lemma libm_value_13: "farctan libm_float64 0 = 0"
  by (simp add: libm_float64_def)

lemma libm_value_14: "farctan libm_float64 (1080863910568919 / 4503599627370496) = (4243201149613883 / 18014398509481984)"
  by (simp add: libm_float64_def)

lemmas libm_values =
  libm_value_1 libm_value_2 libm_value_3 libm_value_4 libm_value_5
  libm_value_6 libm_value_7 libm_value_8 libm_value_9 libm_value_10
  libm_value_11 libm_value_12 libm_value_13 libm_value_14

section \<open>Properties of the sky mapper\<close>

lemmas eval_defs = np_radians_def np_degrees_def DEG2RAD_def RAD2DEG_def M_PI_def fl_sub_def
  Let_def signed_inf_def libm_values

lemma py_round_small: "0 \<le> x \<Longrightarrow> x < 1 / 2 \<Longrightarrow> py_round x = 0"
  using py_round_near [of x 0] by simp

lemma c_fmod_180: "c_fmod 180 360 = 180"
  by (simp add: c_fmod_def trunc_def)

text \<open>The constructor at the example latitudes.\<close>

lemma SkyMapper_init_0: "SkyMapper_init 0 0 None = Inr observer_0"
  by (simp add: SkyMapper_init_def eval_defs rnd_integers py_round_small)

lemma SkyMapper_init_8: "SkyMapper_init 8 0 None = Inr observer_8"
  by (simp add: SkyMapper_init_def eval_defs rnd_integers rnd_values py_round_small)

lemma SkyMapper_init_67: "SkyMapper_init 67 0 None = Inr observer_67"
  by (simp add: SkyMapper_init_def eval_defs rnd_integers rnd_values py_round_small)

lemma SkyMapper_init_90: "SkyMapper_init 90 0 None = Inr observer_90"
  by (simp add: SkyMapper_init_def eval_defs rnd_integers rnd_values py_round_small)

text \<open>
  The Sun overhead on the equator.  The altitude is 90 and the cosine of its radians is
  6.1e-17, not 0: the two quotients of \<open>calculate_azimuth\<close> are 0 / 6.1e-17 = 0 and the
  azimuth is 180.
\<close>

lemma altitude_overhead:
  "latitude_rad m = Fin 0 \<Longrightarrow> calculate_altitude libm_float64 m (Fin 0) (Fin 0) = Fin 90"
  by (simp add: calculate_altitude_def sin_altitude_def eval_defs rnd_integers rnd_values)

lemma cos_altitude_overhead:
  "np_cos libm_float64 (np_radians (Fin 90))
     = Fin (4967757600021511 / 81129638414606681695789005144064)"
  by (simp add: eval_defs rnd_values)

lemma azimuth_overhead:
  "latitude_rad m = Fin 0 \<Longrightarrow>
     calculate_azimuth libm_float64 m (Fin 0) (Fin 0) (Fin 90) = Fin 180"
  by (simp add: calculate_azimuth_def eval_defs rnd_integers rnd_values atan2_def c_fmod_180)

text \<open>Latitude 8, declination 8, hour angle 0.\<close>

lemma sin_altitude_8:
  "sin_altitude libm_float64 observer_8 (Fin 8) (Fin 0)
     = Fin (4503599627370497 / 4503599627370496)"
  by (simp add: sin_altitude_def eval_defs rnd_integers rnd_values)

lemma altitude_8: "calculate_altitude libm_float64 observer_8 (Fin 8) (Fin 0) = NaN"
  by (simp add: calculate_altitude_def sin_altitude_8 np_degrees_def)

lemma azimuth_8: "calculate_azimuth libm_float64 observer_8 (Fin 8) (Fin 0) NaN = NaN"
  by (simp add: calculate_azimuth_def eval_defs rnd_integers rnd_values)

text \<open>Sunrise and sunset at latitudes 67, 90 and 0.\<close>

lemma cos_h_67:
  "cos_h libm_float64 observer_67 (Fin 23) = Fin (- (4503599627370497 / 4503599627370496))"
  by (simp add: cos_h_def eval_defs rnd_integers rnd_values)

lemma sunrise_sunset_67:
  "get_sunrise_sunset_approx libm_float64 observer_67 (Fin 23) = (None, None)"
  by (simp add: get_sunrise_sunset_approx_def cos_h_67)

lemma sunrise_sunset_90:
  "get_sunrise_sunset_approx libm_float64 observer_90 (Fin 0)
     = (Some (Fin (- 90)), Some (Fin 90))"
  by (simp add: get_sunrise_sunset_approx_def cos_h_def eval_defs rnd_integers rnd_values)

lemma sunrise_sunset_0:
  "get_sunrise_sunset_approx libm_float64 observer_0 (Fin 0)
     = (Some (Fin (- 90)), Some (Fin 90))"
  by (simp add: get_sunrise_sunset_approx_def cos_h_def eval_defs rnd_integers rnd_values)

text \<open>Latitudes 67 and 23 are complementary: the exact product of their tangents is 1.\<close>

lemma tan_product: "tan (radians 67) * tan (radians 23) = 1"
proof -
  have c: "radians 67 = pi / 2 - radians 23"
    by (simp add: radians_def field_simps)
  have "0 < radians 23" "radians 23 < pi / 2"
    by (simp_all add: radians_def)
  then have "sin (radians 23) \<noteq> 0" "cos (radians 23) \<noteq> 0"
    using sin_gt_zero2 [of "radians 23"] cos_gt_zero [of "radians 23"] by simp_all
  then show ?thesis
    by (simp add: c tan_def sin_diff cos_diff)
qed

text \<open>
  Claim C2 fails at latitude 8, declination 8 and hour angle 0, where the Sun is overhead
  and the repository's test \<open>test_altitude_at_zenith\<close> expects an altitude near 90.  The
  float64 sum \<open>sin_altitude\<close> is 1.0000000000000002, outside the domain of the arcsine,
  which nothing clamps it to: the altitude is NaN.  The cosine of NaN is NaN, which is
  not 0, and the azimuth is NaN as well.  Neither value lies in the range the claim
  gives.
\<close>

theorem horizon_projection_nan:
  "SkyMapper_init 8 0 None = Inr observer_8
   \<and> sin_altitude libm_float64 observer_8 (Fin 8) (Fin 0)
       = Fin (4503599627370497 / 4503599627370496)
   \<and> calculate_altitude libm_float64 observer_8 (Fin 8) (Fin 0) = NaN
   \<and> np_cos libm_float64 (np_radians (calculate_altitude libm_float64 observer_8 (Fin 8) (Fin 0)))
       \<noteq> Fin 0
   \<and> calculate_azimuth libm_float64 observer_8 (Fin 8) (Fin 0)
         (calculate_altitude libm_float64 observer_8 (Fin 8) (Fin 0)) = NaN"
  by (simp add: SkyMapper_init_8 sin_altitude_8 altitude_8 azimuth_8 np_radians_def)

lemma SkyMapper_init_latitude_rad:
  "SkyMapper_init lat lon tz = Inr m \<Longrightarrow> latitude_rad m = np_radians (Fin lat)"
  by (auto simp: SkyMapper_init_def split: option.splits sum.splits)

text \<open>
  Claim C6, as the code has it.  For a latitude and a declination that are float64
  numbers, \<open>cos_h\<close> is the float64 product of the library's tangents at their radians,
  negated.  The result is the pair \<open>(None, None)\<close> exactly when that float exceeds 1 in
  magnitude, which is when the exact product of the two tangents exceeds \<open>1 + 2 ^ -53\<close>
  in magnitude; otherwise it is the pair \<open>(-H, H)\<close> with \<open>H\<close> the library's arccosine of
  \<open>cos_h\<close>, in degrees.  No case raises.
\<close>

theorem sunrise_sunset_sentinel:
  assumes "\<bar>lat\<bar> < pow2 1024" and "\<bar>dec\<bar> < pow2 1024"
    and "SkyMapper_init lat lon tz = Inr m"
  shows "\<exists>lr dr. np_radians (Fin lat) = Fin lr \<and> np_radians (Fin dec) = Fin dr
           \<and> cos_h L m (Fin dec) = rnd (- ftan L lr * ftan L dr)
           \<and> (get_sunrise_sunset_approx L m (Fin dec) = (None, None))
               = np_gt (np_abs (cos_h L m (Fin dec))) (Fin 1)
           \<and> np_gt (np_abs (cos_h L m (Fin dec))) (Fin 1)
               = (1 + 1 / 2 ^ 53 < \<bar>ftan L lr * ftan L dr\<bar>)
           \<and> (\<not> np_gt (np_abs (cos_h L m (Fin dec))) (Fin 1) \<longrightarrow>
                (\<exists>c. cos_h L m (Fin dec) = Fin c \<and> \<bar>c\<bar> \<le> 1
                   \<and> get_sunrise_sunset_approx L m (Fin dec)
                       = (Some (np_neg (np_degrees (Fin (farccos L c)))),
                          Some (np_degrees (Fin (farccos L c))))))"
proof -
  from np_radians_finite [OF assms(1)] obtain lr where lr: "np_radians (Fin lat) = Fin lr"
    by blast
  from np_radians_finite [OF assms(2)] obtain dr where dr: "np_radians (Fin dec) = Fin dr"
    by blast
  from assms(3) have m: "latitude_rad m = Fin lr"
    by (simp add: SkyMapper_init_latitude_rad lr)
  have c: "cos_h L m (Fin dec) = rnd (- ftan L lr * ftan L dr)"
    by (simp add: cos_h_def m dr)
  have s: "(get_sunrise_sunset_approx L m (Fin dec) = (None, None))
             = np_gt (np_abs (cos_h L m (Fin dec))) (Fin 1)"
    by (simp add: get_sunrise_sunset_approx_def Let_def)
  have t: "np_gt (np_abs (cos_h L m (Fin dec))) (Fin 1)
             = (1 + 1 / 2 ^ 53 < \<bar>ftan L lr * ftan L dr\<bar>)"
    by (simp only: c rnd_exceeds_one) (simp add: abs_mult)
  have "rnd (- ftan L lr * ftan L dr) \<noteq> NaN"
    by (simp add: rnd_def Let_def)
  then have o: "\<not> np_gt (np_abs (cos_h L m (Fin dec))) (Fin 1) \<longrightarrow>
                (\<exists>c. cos_h L m (Fin dec) = Fin c \<and> \<bar>c\<bar> \<le> 1
                   \<and> get_sunrise_sunset_approx L m (Fin dec)
                       = (Some (np_neg (np_degrees (Fin (farccos L c)))),
                          Some (np_degrees (Fin (farccos L c)))))"
    unfolding c by (cases "rnd (- ftan L lr * ftan L dr)")
      (simp_all add: get_sunrise_sunset_approx_def Let_def c)
  from lr dr c s t o show ?thesis
    by blast
qed

lemma cos_h_0: "cos_h libm_float64 observer_0 (Fin 0) = Fin 0"
  by (simp add: cos_h_def eval_defs rnd_integers)

theorem sunrise_sunset_sentinel_witness:
  "\<bar>0 :: real\<bar> < pow2 1024
   \<and> SkyMapper_init 0 0 None = Inr observer_0
   \<and> cos_h libm_float64 observer_0 (Fin 0) = Fin 0
   \<and> get_sunrise_sunset_approx libm_float64 observer_0 (Fin 0)
       = (Some (Fin (- 90)), Some (Fin 90))"
  using sunrise_sunset_sentinel [of 0 0 0 None observer_0 libm_float64] pow2_pos [of 1024]
  by (simp add: SkyMapper_init_0 cos_h_0 sunrise_sunset_0)

text \<open>
  Claim C6 as stated compares the exact product with 1.  At latitude 67 and declination
  23 the exact product of the tangents is 1, which does not exceed 1, and the claim
  promises the pair \<open>(-180, 180)\<close>; the float64 product is -1.0000000000000002 and the
  code returns \<open>(None, None)\<close>.
\<close>

theorem sunrise_sunset_sentinel_counterexample:
  "SkyMapper_init 67 0 None = Inr observer_67
   \<and> get_sunrise_sunset_approx libm_float64 observer_67 (Fin 23) = (None, None)
   \<and> \<not> \<bar>- tan (radians 67) * tan (radians 23)\<bar> > 1"
  by (simp add: SkyMapper_init_67 sunrise_sunset_67 tan_product)

section \<open>Properties of the image anchorer\<close>

subsection \<open>Sun detection\<close>

lemma list_max_ge: "v \<in> set xs \<Longrightarrow> v \<le> list_max xs"
  by (induction xs) (auto simp: list_max_def)

lemma list_max_in: "xs \<noteq> [] \<Longrightarrow> list_max xs \<in> set xs"
proof (induction xs)
  case Nil
  then show ?case by simp
next
  case (Cons x xs)
  show ?case
  proof (cases "xs = []")
    case True
    then show ?thesis by (simp add: list_max_def)
  next
    case False
    with Cons have "list_max xs \<in> set xs" by simp
    then show ?thesis
      by (auto simp: list_max_def max_def)
  qed
qed

lemma in_indexed:
  "(y, x, v) \<in> set (indexed g) \<longleftrightarrow> y < length g \<and> x < length (g ! y) \<and> v = g ! y ! x"
proof
  assume "(y, x, v) \<in> set (indexed g)"
  then show "y < length g \<and> x < length (g ! y) \<and> v = g ! y ! x"
    by (auto simp: indexed_def in_set_enumerate_eq)
next
  assume h: "y < length g \<and> x < length (g ! y) \<and> v = g ! y ! x"
  then have "(y, g ! y) \<in> set (enumerate 0 g)" "(x, v) \<in> set (enumerate 0 (g ! y))"
    by (simp_all add: in_set_enumerate_eq)
  then show "(y, x, v) \<in> set (indexed g)"
    by (force simp: indexed_def)
qed

lemma concat_indexed: "map (\<lambda>(y, x, v). v) (indexed g) = concat g"
proof -
  have e: "map (\<lambda>(x, v). v) (enumerate n xs) = xs" for n and xs :: "'a list"
    by (induction xs arbitrary: n) auto
  have "map (\<lambda>(y, x, v). v) (concat (map (\<lambda>(y, row). map (\<lambda>(x, v). (y, x, v)) (enumerate 0 row)) (enumerate n g)))
        = concat g" for n
  proof (induction g arbitrary: n)
    case Nil
    then show ?case by simp
  next
    case (Cons r g)
    have "map (\<lambda>(y, x, v). v) (map (\<lambda>(x, v). (n, x, v)) (enumerate 0 r)) = r"
      using e [of 0 r] by (simp add: case_prod_unfold o_def)
    with Cons show ?case by simp
  qed
  then show ?thesis by (simp add: indexed_def)
qed

lemma indexed_map:
  "indexed (map (map f) g) = map (\<lambda>(y, x, v). (y, x, f v)) (indexed g)"
proof -
  have e: "enumerate n (map f xs) = map (\<lambda>(i, v). (i, f v)) (enumerate n xs)" for n xs
    by (induction xs arbitrary: n) auto
  have "concat (map (\<lambda>(y, row). map (\<lambda>(x, v). (y, x, v)) (enumerate 0 row)) (enumerate n (map (map f) g)))
      = map (\<lambda>(y, x, v). (y, x, f v)) (concat (map (\<lambda>(y, row). map (\<lambda>(x, v). (y, x, v)) (enumerate 0 row)) (enumerate n g)))" for n
    by (induction g arbitrary: n) (simp_all add: e case_prod_unfold o_def)
  then show ?thesis by (simp add: indexed_def)
qed

lemma weighted_sum_le:
  "\<forall>c \<in> set a. c \<le> (B::nat) \<Longrightarrow> sum_list (map (\<lambda>(c, k). c * k) (zip a w)) \<le> B * sum_list w"
proof (induction a arbitrary: w)
  case Nil
  then show ?case by simp
next
  case (Cons c a)
  show ?case
  proof (cases w)
    case Nil
    then show ?thesis by simp
  next
    case (Cons k w')
    from Cons.prems have "c \<le> B" "\<forall>c \<in> set a. c \<le> B"
      by auto
    then have 1: "c * k \<le> B * k"
      and 2: "sum_list (map (\<lambda>(c, k). c * k) (zip a w')) \<le> B * sum_list w'"
      using Cons.IH by auto
    have "c * k + sum_list (map (\<lambda>(c, k). c * k) (zip a w')) \<le> B * k + B * sum_list w'"
      by (rule add_mono [OF 1 2])
    then show ?thesis
      unfolding Cons by (simp add: distrib_left)
  qed
qed

lemma np_average_bound:
  assumes "\<forall>c \<in> set a. c \<le> B" "sum_list w \<noteq> 0"
  shows "\<exists>r. np_average a w = Inr (Fin r) \<and> 0 \<le> r \<and> r \<le> real B"
proof -
  from assms(2) have "0 < sum_list w"
    by linarith
  then have pos: "0 < real (sum_list w)"
    by (simp only: of_nat_0_less_iff)
  have "real (sum_list (map (\<lambda>(c, k). c * k) (zip a w))) \<le> real (B * sum_list w)"
    using weighted_sum_le [OF assms(1), of w] by (simp only: of_nat_le_iff)
  then have "real (sum_list (map (\<lambda>(c, k). c * k) (zip a w))) / real (sum_list w) \<le> real B"
    unfolding pos_divide_le_eq [OF pos] by simp
  then show ?thesis
    using assms(2) by (simp add: np_average_def)
qed

lemma trunc_bound: "0 \<le> r \<Longrightarrow> r \<le> real B \<Longrightarrow> 0 \<le> trunc r \<and> trunc r \<le> int B"
  by (simp add: trunc_def floor_le_iff)


lemma brightest_pixel_in_bounds:
  assumes "concat g \<noteq> []" "\<forall>row \<in> set g. length row = w"
  shows "\<exists>y x. brightest_pixel g = Inr (y, x) \<and> 0 \<le> x \<and> x < int w \<and> 0 \<le> y \<and> y < int (length g)"
proof -
  have "list_max (concat g) \<in> set (concat g)"
    using assms(1) by (rule list_max_in)
  then have "list_max (concat g) \<in> set (map (\<lambda>(y, x, v). v) (indexed g))"
    by (simp only: concat_indexed)
  then obtain y x where m: "(y, x, list_max (concat g)) \<in> set (indexed g)"
    by auto
  then have "find (\<lambda>(y, x, v). v = list_max (concat g)) (indexed g) \<noteq> None"
    by (auto simp: find_None_iff)
  then obtain y' x' v' where
    f: "find (\<lambda>(y, x, v). v = list_max (concat g)) (indexed g) = Some (y', x', v')"
    by (cases "find (\<lambda>(y, x, v). v = list_max (concat g)) (indexed g)") auto
  then have "(y', x', v') \<in> set (indexed g)"
    by (metis find_Some_iff nth_mem)
  then have "y' < length g" "x' < length (g ! y')"
    by (simp_all add: in_indexed)
  moreover from this assms(2) have "length (g ! y') = w"
    by simp
  ultimately show ?thesis
    using f by (simp add: brightest_pixel_def)
qed

text \<open>
  Without scipy, detection returns a pixel inside the image whenever the image is a
  rectangular grid with a pixel that is not black: the pixels that pass the threshold
  then have positive weights, and a weighted mean of column (row) numbers lies between
  the smallest and the largest of them.
\<close>

lemma detect_sun_position_no_scipy:
  assumes gray: "to_gray img = Inr g"
    and rect: "\<forall>row \<in> set g. length row = w"
    and lit: "\<exists>v \<in> set (concat g). 0 < v"
  shows "\<exists>x y. detect_sun_position False label img = Inr (x, y)
               \<and> 0 \<le> x \<and> x < int w \<and> 0 \<le> y \<and> y < int (length g)"
proof -
  let ?mx = "list_max (concat g)"
  let ?t = "real ?mx * 0.999"
  let ?mask = "map (map (\<lambda>v. real v \<ge> ?t)) g"
  let ?coords = "filter (\<lambda>(y, x, b). b) (indexed ?mask)"
  let ?ws = "map (\<lambda>(y, x, b). g ! y ! x) ?coords"
  from lit obtain v0 where "v0 \<in> set (concat g)"
    by blast
  then have ne: "concat g \<noteq> []"
    by (metis empty_iff empty_set)
  from lit have mx: "0 < ?mx"
    using list_max_ge by fastforce
  have w0: "0 < w"
  proof -
    from lit obtain row v where "row \<in> set g" "v \<in> set row"
      by auto
    then have "row \<in> set g" "length row \<noteq> 0"
      by auto
    with rect show ?thesis
      by auto
  qed
  show ?thesis
  proof (cases "length (filter id (concat ?mask)) > 10")
    case False
    from brightest_pixel_in_bounds [OF ne rect] obtain y x where
      "brightest_pixel g = Inr (y, x)" "0 \<le> x" "x < int w" "0 \<le> y" "y < int (length g)"
      by blast
    with False gray ne show ?thesis
      by (simp add: detect_sun_position_def Let_def)
  next
    case True
    have in_coords: "(y, x, b) \<in> set ?coords \<Longrightarrow>
        y < length g \<and> x < w \<and> real (g ! y ! x) \<ge> ?t" for y x b
      using rect by (auto simp: indexed_map in_indexed)
    have "?mx \<in> set (concat g)"
      using ne by (rule list_max_in)
    then have "?mx \<in> set (map (\<lambda>(y, x, v). v) (indexed g))"
      by (simp only: concat_indexed)
    then obtain y0 x0 where m: "(y0, x0, ?mx) \<in> set (indexed g)"
      by auto
    have "real ?mx \<ge> ?t"
      by simp
    with m have c0: "(y0, x0, True) \<in> set ?coords"
      by (force simp: indexed_map)
    have "g ! y0 ! x0 = ?mx"
      using m by (simp add: in_indexed)
    with c0 mx have "\<exists>k \<in> set ?ws. 0 < k"
      by force
    then have sw: "sum_list ?ws \<noteq> 0"
      by auto
    have bx: "\<forall>c \<in> set (map (\<lambda>(y, x, b). x) ?coords). c \<le> w - 1"
      using in_coords w0 by fastforce
    have by': "\<forall>c \<in> set (map (\<lambda>(y, x, b). y) ?coords). c \<le> length g - 1"
      using in_coords by fastforce
    from np_average_bound [OF bx sw] obtain rx where
      rx: "np_average (map (\<lambda>(y, x, b). x) ?coords) ?ws = Inr (Fin rx)" "0 \<le> rx" "rx \<le> real (w - 1)"
      by blast
    from np_average_bound [OF by' sw] obtain ry where
      ry: "np_average (map (\<lambda>(y, x, b). y) ?coords) ?ws = Inr (Fin ry)" "0 \<le> ry" "ry \<le> real (length g - 1)"
      by blast
    have lg: "0 < length g"
      using ne by auto
    from trunc_bound [OF rx(2,3)] w0 have tx: "0 \<le> trunc rx" "trunc rx < int w"
      by auto
    from trunc_bound [OF ry(2,3)] lg have ty: "0 \<le> trunc ry" "trunc ry < int (length g)"
      by auto
    show ?thesis
      using True gray ne rx(1) ry(1) tx ty
      by (simp add: detect_sun_position_def Let_def)
  qed
qed

text \<open>
  Claim C9 fails on an image that is entirely black.  The maximum is 0, the threshold is
  0, every pixel passes it, and every weight is 0.  Without scipy, on a row of eleven
  black pixels, \<open>np.average\<close> raises because the weights sum to zero.  With scipy, which
  labels the row as one component, the centre of mass is zero over zero and its
  conversion to an integer raises.
\<close>

theorem detect_sun_position_black_image:
  "detect_sun_position False label (Gray2D [[0, 0, 0, 0, 0, 0, 0, 0, 0, 0, 0]])
     = Inl ZeroDivisionError
   \<and> detect_sun_position True (\<lambda>mask. ([[1, 1, 1, 1, 1, 1, 1, 1, 1, 1, 1]], 1))
       (Gray2D [[0, 0, 0, 0, 0, 0, 0, 0, 0, 0, 0]])
     = Inl ValueError"
  by (simp add: detect_sun_position_def to_gray_def list_max_def indexed_def np_average_def
      center_of_mass_def first_index_of_max_def signed_inf_def upt_rec Let_def)

subsection \<open>Calibration and pixel mapping\<close>

text \<open>The constructor on the example photograph.\<close>

lemma declination_day_81: "calculate_declination_approximate 81 = 0"
  by (simp add: calculate_declination_approximate_def OBLIQUITY_def radians_def)

lemma calculate_example:
  "calculate astropy_available get_sun \<lparr>mode = ''approximate'', year = 2026\<rparr> example_datetime
     = Inr \<lparr>declination = 0, eot = - (753 / 100), day_of_year = 81, date = example_datetime\<rparr>"
  by (simp add: calculate_def Let_def tm_yday_march_22 declination_day_81
      equation_of_time_day_81)

lemma SkyMapper_init_example:
  "SkyMapper_init 0 example_longitude None
     = Inr \<lparr>latitude = 0, longitude = example_longitude, timezone_offset = 0,
             latitude_rad = Fin 0\<rparr>"
  by (simp add: SkyMapper_init_def eval_defs rnd_integers rnd_values py_round_small)

lemma hour_angle_example:
  "equation_of_time_to_hour_angle
       \<lparr>latitude = 0, longitude = example_longitude, timezone_offset = 0, latitude_rad = Fin 0\<rparr>
       (- (753 / 100)) 12 0 None = Fin 0"
  by (simp add: equation_of_time_to_hour_angle_def eval_defs rnd_integers rnd_values)

lemma map_single_point_example:
  "map_single_point libm_float64
       \<lparr>latitude = 0, longitude = example_longitude, timezone_offset = 0, latitude_rad = Fin 0\<rparr>
       \<lparr>declination = 0, eot = - (753 / 100), day_of_year = 81, date = example_datetime\<rparr>
     = \<lparr>declination = 0, eot = - (753 / 100), day_of_year = 81, date = example_datetime,
        altitude = Fin 90, azimuth = Fin 180, hour_angle = Fin 0\<rparr>"
  by (simp add: map_single_point_def Let_def hour_angle_example altitude_overhead
      azimuth_overhead calc_result.extend_def horizon.fields_def)

lemma detect_example:
  "detect_sun_position False label (Gray2D [[0, 255], [0, 0]]) = Inr (1, 0)"
  by (simp add: detect_sun_position_def to_gray_def list_max_def indexed_def
      brightest_pixel_def Let_def)

lemma calculator_example:
  "AnalemmaCalculator_init False ''approximate'' (Some 2026) 2026
     = Inr \<lparr>mode = ''approximate'', year = 2026\<rparr>"
  by (simp add: AnalemmaCalculator_init_def Let_def)

lemma init_example:
  "ImageAnchorer_init libm_float64 False get_sun 2026 False label (Gray2D [[0, 255], [0, 0]])
       example_datetime 0 example_longitude None True
     = Inr example_anchorer"
  by (simp add: ImageAnchorer_init_def Let_def detect_example calculator_example
      calculate_example SkyMapper_init_example map_single_point_example img_width_def
      img_height_def)

lemma init_wide:
  "ImageAnchorer_init libm_float64 False get_sun 2026 False label (Gray2D [[0, 255], [0, 0]])
       example_datetime 0 example_longitude (Some (9007199254740993, 0)) True
     = Inr wide_anchorer"
  by (simp add: ImageAnchorer_init_def Let_def calculator_example
      calculate_example SkyMapper_init_example map_single_point_example img_width_def
      img_height_def)

text \<open>The calibrations of the example.\<close>

lemma calibrate_example:
  "calibrate_from_field_of_view example_anchorer (PyFloat (Fin 2)) (PyFloat (Fin 2))
     = (Inr (), calibrated_anchorer)"
  by (simp add: calibrate_from_field_of_view_def py_truediv_def Let_def rnd_integers)

lemma calibrate_wide:
  "calibrate_from_field_of_view wide_anchorer (PyFloat (Fin 2)) (PyFloat (Fin 2))
     = (Inr (), wide_anchorer\<lparr>pixels_per_degree_az := Some (Fin 1),
                               pixels_per_degree_alt := Some (Fin 1)\<rparr>)"
  by (simp add: calibrate_from_field_of_view_def py_truediv_def Let_def rnd_integers)

lemma calibrate_focal:
  "calibrate_from_focal_length libm_float64 example_anchorer 50 0 24
     = (Inr (), focal_anchorer)"
  by (simp add: calibrate_from_focal_length_def calibrate_from_field_of_view_def
      py_truediv_def eval_defs rnd_integers rnd_values)

text \<open>A new anchorer has no scale; a calibration that returns has set both.\<close>

lemma init_uncalibrated:
  assumes "ImageAnchorer_init L astropy_available get_sun now_year has_scipy label
             img dt lat lon px auto_detect = Inr a"
  shows "pixels_per_degree_az a = None \<and> pixels_per_degree_alt a = None"
  using assms by (auto simp: ImageAnchorer_init_def Let_def split: sum.splits)

lemma calibrate_from_field_of_view_sets:
  assumes "calibrate_from_field_of_view a h v = (Inr (), a')"
  shows "\<exists>p q. a' = a\<lparr>pixels_per_degree_az := Some p, pixels_per_degree_alt := Some q\<rparr>"
  using assms by (auto simp: calibrate_from_field_of_view_def Let_def split: sum.splits)

lemma calibrate_from_focal_length_sets:
  assumes "calibrate_from_focal_length L a f w h = (Inr (), a')"
  shows "\<exists>p q. a' = a\<lparr>pixels_per_degree_az := Some p, pixels_per_degree_alt := Some q\<rparr>"
  using assms calibrate_from_field_of_view_sets
  by (auto simp: calibrate_from_focal_length_def Let_def split: if_splits)

text \<open>
  The conversion of a pixel coordinate succeeds exactly when the float it converts is a
  number, and then truncates it.
\<close>

lemma int_of_sum_number:
  "fl_add (rnd (of_int n)) d = Fin c \<Longrightarrow> int_of_sum n d = Inr (trunc c)"
  by (cases "rnd (of_int n)"; cases d) (simp_all add: int_of_sum_def)

lemma int_of_sum_error:
  "(\<nexists>c. fl_add (rnd (of_int n)) d = Fin c) \<Longrightarrow>
     int_of_sum n d = Inl ValueError \<or> int_of_sum n d = Inl OverflowError"
  by (cases "rnd (of_int n)"; cases "fl_add (rnd (of_int n)) d")
    (simp_all add: int_of_sum_def)

lemma sky_to_pixel_calibrated:
  assumes "pixels_per_degree_az a = Some p" "pixels_per_degree_alt a = Some q"
  shows "(\<forall>cx cy. pixel_x a az p = Fin cx \<and> pixel_y a alt q = Fin cy \<longrightarrow>
            sky_to_pixel a alt az = Inr (trunc cx, trunc cy))
         \<and> ((\<nexists>cx cy. pixel_x a az p = Fin cx \<and> pixel_y a alt q = Fin cy) \<longrightarrow>
            sky_to_pixel a alt az = Inl ValueError \<or> sky_to_pixel a alt az = Inl OverflowError)"
proof (intro conjI allI impI)
  fix cx cy
  assume "pixel_x a az p = Fin cx \<and> pixel_y a alt q = Fin cy"
  then show "sky_to_pixel a alt az = Inr (trunc cx, trunc cy)"
    using assms by (simp add: sky_to_pixel_def Let_def int_of_sum_number)
next
  assume n: "\<nexists>cx cy. pixel_x a az p = Fin cx \<and> pixel_y a alt q = Fin cy"
  show "sky_to_pixel a alt az = Inl ValueError \<or> sky_to_pixel a alt az = Inl OverflowError"
  proof (cases "\<exists>cx. pixel_x a az p = Fin cx")
    case True
    then obtain cx where x: "pixel_x a az p = Fin cx"
      by blast
    with n have "\<nexists>cy. pixel_y a alt q = Fin cy"
      by simp
    from int_of_sum_error [OF this] int_of_sum_number [OF x] assms show ?thesis
      by (auto simp: sky_to_pixel_def Let_def)
  next
    case False
    from int_of_sum_error [OF this] assms show ?thesis
      by (auto simp: sky_to_pixel_def Let_def)
  qed
qed

text \<open>
  Claim C3, as the code has it.  On a newly built anchorer every request fails with
  Python's \<open>ValueError\<close>; no scale is assumed.  After a calibration that returns, from
  the field of view or from the focal length, both scales are set and the same request
  succeeds exactly when the two floats it converts to pixel coordinates,
  \<open>sun_pixel[0] + delta_x\<close> and \<open>sun_pixel[1] + delta_y\<close>, are numbers; it then returns
  their truncations.  Otherwise the conversion to an integer raises \<open>ValueError\<close> (on NaN)
  or \<open>OverflowError\<close> (on an infinity).
\<close>

theorem sky_to_pixel_requires_calibration:
  assumes "ImageAnchorer_init L astropy_available get_sun now_year has_scipy label
             img dt lat lon px auto_detect = Inr a"
  shows "sky_to_pixel a alt az = Inl ValueError
         \<and> (calibrate_from_field_of_view a h_fov v_fov = (Inr (), a')
              \<or> calibrate_from_focal_length L' a focal width height = (Inr (), a') \<longrightarrow>
            (\<exists>p q. pixels_per_degree_az a' = Some p \<and> pixels_per_degree_alt a' = Some q
               \<and> (\<forall>cx cy. pixel_x a' az p = Fin cx \<and> pixel_y a' alt q = Fin cy \<longrightarrow>
                     sky_to_pixel a' alt az = Inr (trunc cx, trunc cy))
               \<and> ((\<nexists>cx cy. pixel_x a' az p = Fin cx \<and> pixel_y a' alt q = Fin cy) \<longrightarrow>
                     sky_to_pixel a' alt az = Inl ValueError
                     \<or> sky_to_pixel a' alt az = Inl OverflowError)))"
proof (intro conjI impI)
  from init_uncalibrated [OF assms] show "sky_to_pixel a alt az = Inl ValueError"
    by (simp add: sky_to_pixel_def)
next
  assume "calibrate_from_field_of_view a h_fov v_fov = (Inr (), a')
            \<or> calibrate_from_focal_length L' a focal width height = (Inr (), a')"
  then obtain p q
    where "a' = a\<lparr>pixels_per_degree_az := Some p, pixels_per_degree_alt := Some q\<rparr>"
    using calibrate_from_field_of_view_sets calibrate_from_focal_length_sets by blast
  then have s: "pixels_per_degree_az a' = Some p" "pixels_per_degree_alt a' = Some q"
    by simp_all
  from sky_to_pixel_calibrated [OF s] s
  show "\<exists>p q. pixels_per_degree_az a' = Some p \<and> pixels_per_degree_alt a' = Some q
          \<and> (\<forall>cx cy. pixel_x a' az p = Fin cx \<and> pixel_y a' alt q = Fin cy \<longrightarrow>
                sky_to_pixel a' alt az = Inr (trunc cx, trunc cy))
          \<and> ((\<nexists>cx cy. pixel_x a' az p = Fin cx \<and> pixel_y a' alt q = Fin cy) \<longrightarrow>
                sky_to_pixel a' alt az = Inl ValueError
                \<or> sky_to_pixel a' alt az = Inl OverflowError)"
    by blast
qed

lemma pixel_example:
  "pixel_x calibrated_anchorer (Fin 210) (Fin 1) = Fin 31
   \<and> pixel_y calibrated_anchorer (Fin 60) (Fin 1) = Fin 30"
  by (simp add: fl_sub_def rnd_integers)

theorem sky_to_pixel_requires_calibration_witness:
  "ImageAnchorer_init libm_float64 False (\<lambda>dt. Inl ProviderError) 2026 False (\<lambda>mask. ([], 0))
       (Gray2D [[0, 255], [0, 0]]) example_datetime 0 example_longitude None True
     = Inr example_anchorer
   \<and> sky_to_pixel example_anchorer (Fin 60) (Fin 210) = Inl ValueError
   \<and> calibrate_from_field_of_view example_anchorer (PyFloat (Fin 2)) (PyFloat (Fin 2))
       = (Inr (), calibrated_anchorer)
   \<and> sky_to_pixel calibrated_anchorer (Fin 60) (Fin 210) = Inr (31, 30)"
  using sky_to_pixel_requires_calibration
          [OF init_example [of "\<lambda>dt. Inl ProviderError" "\<lambda>mask. ([], 0)"],
           where alt = "Fin 60" and az = "Fin 210" and h_fov = "PyFloat (Fin 2)"
             and v_fov = "PyFloat (Fin 2)" and a' = calibrated_anchorer]
        pixel_example
  by (simp add: init_example calibrate_example trunc_def)

text \<open>
  Claim C3 as stated names the exception \<open>ConfigurationError\<close> and promises success after
  any calibration.  On the example anchorer the request for altitude 60 and azimuth 210
  raises an exception of another class before calibration; after the calibration from
  the focal length 50 with a sensor of width 0 and height 24, which returns, the azimuth
  scale is infinite and the same request raises \<open>OverflowError\<close>.
\<close>

theorem sky_to_pixel_requires_calibration_counterexample:
  "ImageAnchorer_init libm_float64 False (\<lambda>dt. Inl ProviderError) 2026 False (\<lambda>mask. ([], 0))
       (Gray2D [[0, 255], [0, 0]]) example_datetime 0 example_longitude None True
     = Inr example_anchorer
   \<and> \<not> (case sky_to_pixel example_anchorer (Fin 60) (Fin 210) of
           Inl e \<Rightarrow> error_name e = ''ConfigurationError''
         | Inr p \<Rightarrow> False)
   \<and> calibrate_from_focal_length libm_float64 example_anchorer 50 0 24
       = (Inr (), focal_anchorer)
   \<and> sky_to_pixel focal_anchorer (Fin 60) (Fin 210) = Inl OverflowError"
  by (simp add: init_example calibrate_focal sky_to_pixel_def int_of_sum_def Let_def
      fl_sub_def rnd_integers signed_inf_def)

text \<open>
  Claim C8, as the code has it.  On an anchorer whose two scales are numbers, whose
  anchor altitude and azimuth are numbers and whose Sun pixel coordinates do not exceed
  \<open>2 ^ 53\<close> in magnitude, the anchor's own horizon position maps to the Sun pixel
  exactly: both offsets are 0, both products are 0, and the conversions to float and
  back are exact.
\<close>

theorem sky_to_pixel_at_anchor:
  assumes "pixels_per_degree_az a = Some (Fin p)" and "pixels_per_degree_alt a = Some (Fin q)"
    and "altitude (anchor_data a) = Fin alt" and "azimuth (anchor_data a) = Fin az"
    and "\<bar>fst (sun_pixel a)\<bar> \<le> 2 ^ 53" and "\<bar>snd (sun_pixel a)\<bar> \<le> 2 ^ 53"
  shows "sky_to_pixel a (altitude (anchor_data a)) (azimuth (anchor_data a))
           = Inr (sun_pixel a)"
  using assms
  by (simp add: sky_to_pixel_def int_of_sum_def Let_def fl_sub_def rnd_of_int rnd_zero
      trunc_def)

theorem sky_to_pixel_at_anchor_witness:
  "calibrate_from_field_of_view example_anchorer (PyFloat (Fin 2)) (PyFloat (Fin 2))
     = (Inr (), calibrated_anchorer)
   \<and> sky_to_pixel calibrated_anchorer (Fin 90) (Fin 180) = Inr (1, 0)"
  using sky_to_pixel_at_anchor [of calibrated_anchorer 1 1 90 180]
  by (simp add: calibrate_example)

text \<open>
  Claim C8 as stated covers every calibrated anchorer.  It fails on the example
  calibrated from the focal length with a sensor of width 0, where the azimuth scale is
  infinite and the product with the offset 0 is NaN; on an anchorer whose anchor
  position is NaN; and on the example built with the Sun's pixel at the column
  \<open>2 ^ 53 + 1\<close>, which the conversion to float moves to \<open>2 ^ 53\<close>.
\<close>

theorem sky_to_pixel_at_anchor_counterexample:
  "calibrate_from_focal_length libm_float64 example_anchorer 50 0 24
     = (Inr (), focal_anchorer)
   \<and> sky_to_pixel focal_anchorer (altitude (anchor_data focal_anchorer))
         (azimuth (anchor_data focal_anchorer)) = Inl ValueError
   \<and> sky_to_pixel nan_anchorer (altitude (anchor_data nan_anchorer))
         (azimuth (anchor_data nan_anchorer)) = Inl ValueError
   \<and> ImageAnchorer_init libm_float64 False (\<lambda>dt. Inl ProviderError) 2026 False
         (\<lambda>mask. ([], 0)) (Gray2D [[0, 255], [0, 0]]) example_datetime 0 example_longitude
         (Some (9007199254740993, 0)) True
       = Inr wide_anchorer
   \<and> calibrate_from_field_of_view wide_anchorer (PyFloat (Fin 2)) (PyFloat (Fin 2))
       = (Inr (), wide_anchorer\<lparr>pixels_per_degree_az := Some (Fin 1),
                                 pixels_per_degree_alt := Some (Fin 1)\<rparr>)
   \<and> sky_to_pixel (wide_anchorer\<lparr>pixels_per_degree_az := Some (Fin 1),
                                  pixels_per_degree_alt := Some (Fin 1)\<rparr>)
         (Fin 90) (Fin 180) = Inr (9007199254740992, 0)"
  using init_wide [of "\<lambda>dt. Inl ProviderError" "\<lambda>mask. ([], 0)"] calibrate_wide
  by (simp add: calibrate_focal sky_to_pixel_def int_of_sum_def Let_def fl_sub_def
      rnd_integers rnd_tie signed_inf_def trunc_def)

end
